theory Spec2Isabelle
  imports Main "HOL-Library.Word" "HOL-Library.Char_ord" "HOL-Library.List_Lexorder"
begin

section \<open>The manifest store of \<^verbatim>\<open>server\<close> (runner.go, second part)\<close>

text \<open>
  The development embeds the functions \<^verbatim>\<open>Manifest.Size\<close>, \<^verbatim>\<open>Manifest.Remove\<close>,
  \<^verbatim>\<open>ParseNamedManifest\<close>, \<^verbatim>\<open>WriteManifest\<close>, \<^verbatim>\<open>Manifests\<close>,
  \<^verbatim>\<open>createAppleManifests\<close> and \<^verbatim>\<open>GenerateFakeDigest\<close>. They act on a file
  system, an environment and a log; these are an explicit state, the record \<open>world\<close>,
  which every function takes and returns. An error return of Go is a value of the type
  \<open>error\<close>.
\<close>

subsection \<open>Data\<close>

text \<open>Go's \<^verbatim>\<open>int64\<close>: addition wraps, \<open>sint\<close> reads the signed value.\<close>

type_synonym int64 = "64 word"

text \<open>
  Modelled from the spec: the type \<^verbatim>\<open>Layer\<close> is declared outside the source file
  (the spec, section 3: digest, mediaType, size). The source reads \<^verbatim>\<open>layer.Size\<close>
  as an \<^verbatim>\<open>int64\<close> and \<^verbatim>\<open>layer.Digest\<close> as a string.
\<close>

record Layer =
  MediaType :: string
  Digest :: string
  Size :: int64

text \<open>
  What \<^verbatim>\<open>os.FileInfo\<close> gives of a file: its base name, its size and whether it is a
  directory. Mode and modification time are not tracked.
\<close>

record FileInfo =
  fi_Name :: string
  fi_Size :: int64
  fi_IsDir :: bool

text \<open>
  The struct \<^verbatim>\<open>Manifest\<close>. The first five fields are exported, so the JSON codec
  reads and writes them; \<open>filepath\<close>, \<open>fi\<close> and \<open>digest\<close> are not. A nil
  \<^verbatim>\<open>fi\<close> is \<open>None\<close>; a nil and an empty slice are both \<open>[]\<close>.
\<close>

record Manifest =
  SchemaVersion :: int
  MediaType :: string
  Config :: Layer
  Layers :: "Layer list"
  IsAppleFoundationModel :: bool
  filepath :: string
  fi :: "FileInfo option"
  digest :: string

subsection \<open>\<^verbatim>\<open>Manifest.Size\<close>\<close>

text \<open>
  \<^verbatim>\<open>for _, layer := range append(m.Layers, m.Config) { size += layer.Size }\<close>:
  the loop runs over the layers and then the config, adding in \<^verbatim>\<open>int64\<close>.
\<close>

definition Manifest_Size :: "Manifest \<Rightarrow> int64" where
  "Manifest_Size m = foldl (\<lambda>size layer. size + Size layer) 0 (Layers m @ [Config m])"


subsection \<open>Errors\<close>

text \<open>
  The errors the functions return. \<open>PathError op path errno\<close> is \<^verbatim>\<open>*fs.PathError\<close>;
  \<open>Errorf s e\<close> is \<^verbatim>\<open>fmt.Errorf(s + " %w", e)\<close>, where \<open>e\<close> is \<open>None\<close> when the
  wrapped error is nil; \<open>ErrorString\<close> is an error made from a text alone;
  \<open>Unqualified n\<close> is \<^verbatim>\<open>model.Unqualified(n)\<close>.
\<close>

datatype errno = ENOENT | EEXIST | ENOTDIR | EISDIR | ENOTEMPTY | EBUSY | EINVAL | EBADF

datatype json_error = SyntaxError string | UnmarshalTypeError string | UnexpectedEOF | EOF

datatype 'n error =
    Unqualified 'n
  | PathError string string errno
  | JSONError json_error
  | ErrorString string
  | Errorf string "'n error option"

text \<open>\<^verbatim>\<open>errors.Is(err, os.ErrNotExist)\<close>: the error is, or wraps, a path error with ENOENT.\<close>

fun is_NotExist :: "'n error \<Rightarrow> bool" where
  "is_NotExist (PathError opn path e) = (e = ENOENT)"
| "is_NotExist (Errorf s (Some err)) = is_NotExist err"
| "is_NotExist _ = False"

subsection \<open>The world: files, environment variables, calls, log\<close>

text \<open>
  A path names a regular file with its bytes, a directory, or a symbolic link whose target
  does not exist. \<open>entries\<close> maps keys to nodes (the first pair of a key counts); an
  entry counts only when the path to it resolves.
  \<open>calls\<close> is the list of file-system calls made so far, oldest first: a function that
  leaves \<open>calls\<close> as it was has not touched the file system. \<open>logs\<close> holds what was
  given to \<^verbatim>\<open>slog\<close>: level, message and the text attributes.
\<close>

datatype node = File string | Dir | Dangling

datatype level = Debug | Info | Warn

record world =
  entries :: "(string \<times> node) list"
  environ :: "(string \<times> string) list"
  calls :: "(string \<times> string) list"
  logs :: "(level \<times> string \<times> string list) list"

definition called :: "string \<Rightarrow> string \<Rightarrow> world \<Rightarrow> world" where
  "called opn path w = w\<lparr>calls := calls w @ [(opn, path)]\<rparr>"

definition slog :: "level \<Rightarrow> string \<Rightarrow> string list \<Rightarrow> world \<Rightarrow> world" where
  "slog l msg attrs w = w\<lparr>logs := logs w @ [(l, msg, attrs)]\<rparr>"

definition os_Getenv :: "string \<Rightarrow> world \<Rightarrow> string" where
  "os_Getenv k w = (case map_of (environ w) k of None \<Rightarrow> [] | Some v \<Rightarrow> v)"

subsection \<open>\<^verbatim>\<open>path/filepath\<close> on Unix paths\<close>

fun split_path :: "string \<Rightarrow> string list" where
  "split_path [] = [[]]"
| "split_path (c # cs) =
     (if c = CHR ''/'' then [] # split_path cs
      else (case split_path cs of [] \<Rightarrow> [[c]] | s # ss \<Rightarrow> (c # s) # ss))"

fun join_path :: "string list \<Rightarrow> string" where
  "join_path [] = []"
| "join_path [s] = s"
| "join_path (s # t # ss) = s @ CHR ''/'' # join_path (t # ss)"

text \<open>
  \<^verbatim>\<open>Clean\<close>: empty and \<^verbatim>\<open>.\<close> elements go; \<^verbatim>\<open>..\<close> takes the element before it
  away, is dropped at the root, and is kept at the start of a relative path. The second
  argument is the cleaned path so far, last element first.
\<close>

fun clean_segs :: "bool \<Rightarrow> string list \<Rightarrow> string list \<Rightarrow> string list" where
  "clean_segs rooted acc [] = rev acc"
| "clean_segs rooted acc (s # ss) =
     (if s = [] \<or> s = ''.'' then clean_segs rooted acc ss
      else if s = ''..'' then
        (case acc of
           [] \<Rightarrow> if rooted then clean_segs rooted [] ss else clean_segs rooted [s] ss
         | a # acc' \<Rightarrow>
             if a = ''..'' then clean_segs rooted (s # acc) ss
             else clean_segs rooted acc' ss)
      else clean_segs rooted (s # acc) ss)"

definition is_rooted :: "string \<Rightarrow> bool" where
  "is_rooted p = (case p of [] \<Rightarrow> False | c # cs \<Rightarrow> c = CHR ''/'')"

definition filepath_Clean :: "string \<Rightarrow> string" where
  "filepath_Clean p =
     (let out = join_path (clean_segs (is_rooted p) [] (split_path p))
      in if is_rooted p then CHR ''/'' # out else if out = [] then ''.'' else out)"

text \<open>\<^verbatim>\<open>Join\<close> skips leading empty elements, joins the rest with a slash and cleans.\<close>

definition filepath_Join :: "string list \<Rightarrow> string" where
  "filepath_Join elem =
     (case dropWhile (\<lambda>e. e = []) elem of
        [] \<Rightarrow> []
      | e # es \<Rightarrow> filepath_Clean (join_path (e # es)))"

text \<open>\<^verbatim>\<open>Dir\<close>: the path up to its last slash, cleaned.\<close>

definition filepath_Dir :: "string \<Rightarrow> string" where
  "filepath_Dir p = filepath_Clean (rev (dropWhile (\<lambda>c. c \<noteq> CHR ''/'') (rev p)))"

definition filepath_Base :: "string \<Rightarrow> string" where
  "filepath_Base p =
     (case filter (\<lambda>s. s \<noteq> []) (split_path p) of
        [] \<Rightarrow> if p = [] then ''.'' else ''/''
      | s # ss \<Rightarrow> last (s # ss))"

fun strip_common :: "string list \<Rightarrow> string list \<Rightarrow> string list \<times> string list" where
  "strip_common (b # bs) (t # ts) =
     (if b = t then strip_common bs ts else (b # bs, t # ts))"
| "strip_common bs ts = (bs, ts)"

text \<open>
  \<^verbatim>\<open>Rel(basepath, targpath)\<close>: both are cleaned; the common leading elements go, each
  element left of the base becomes \<^verbatim>\<open>..\<close>. It fails when only one of the two is rooted,
  or when the base starts with \<^verbatim>\<open>..\<close> where the two part.
\<close>

definition filepath_Rel :: "string \<Rightarrow> string \<Rightarrow> 'n error + string" where
  "filepath_Rel basepath targpath =
     (let base = filepath_Clean basepath; targ = filepath_Clean targpath;
          failed = Inl (ErrorString (''Rel: can't make '' @ targpath @ '' relative to '' @ basepath))
      in if targ = base then Inr ''.''
         else if is_rooted base \<noteq> is_rooted targ then failed
         else
           (case strip_common
                   (filter (\<lambda>s. s \<noteq> []) (split_path (if base = ''.'' then [] else base)))
                   (filter (\<lambda>s. s \<noteq> []) (split_path targ)) of
              (bs, ts) \<Rightarrow>
                if bs \<noteq> [] \<and> hd bs = ''..'' then failed
                else Inr (join_path (map (\<lambda>b. ''..'') bs @ ts))))"

subsection \<open>Resolving a path\<close>

text \<open>
  The keys of \<open>entries\<close> are absolute, clean paths, and the working directory is the
  root, so a relative path is resolved from the root as well. A path is resolved element
  by element, as the kernel does: every element that is passed through must be a
  directory. The list \<open>st\<close> holds the directory reached and the directories above it,
  nearest first; \<^verbatim>\<open>..\<close> goes one up and stays at the root. The result is the key of the
  last element with its node, or with \<open>None\<close> when only the last element is missing; a
  missing element on the way is ENOENT, a regular file on the way is ENOTDIR, a link
  without a target on the way is ENOENT.
\<close>

definition child :: "string \<Rightarrow> string \<Rightarrow> string" where
  "child cur s = (if cur = ''/'' then CHR ''/'' # s else cur @ CHR ''/'' # s)"

fun walk :: "world \<Rightarrow> string list \<Rightarrow> string list \<Rightarrow> errno + string \<times> node option" where
  "walk w [] ss = Inl ENOENT"
| "walk w (cur # up) [] = Inr (cur, Some Dir)"
| "walk w (cur # up) (s # ss) =
     (if s = [] \<or> s = ''.'' then walk w (cur # up) ss
      else if s = ''..'' then walk w (if up = [] then [cur] else up) ss
      else
        (case map_of (entries w) (child cur s) of
           None \<Rightarrow> if list_all (\<lambda>t. t = []) ss then Inr (child cur s, None) else Inl ENOENT
         | Some Dir \<Rightarrow> walk w (child cur s # cur # up) ss
         | Some (File bs) \<Rightarrow> if ss = [] then Inr (child cur s, Some (File bs)) else Inl ENOTDIR
         | Some Dangling \<Rightarrow> if ss = [] then Inr (child cur s, Some Dangling) else Inl ENOENT))"

definition locate :: "world \<Rightarrow> string \<Rightarrow> errno + string \<times> node option" where
  "locate w p = (if p = [] then Inl ENOENT else walk w [''/''] (split_path p))"

definition resolve :: "world \<Rightarrow> string \<Rightarrow> errno + string \<times> node" where
  "resolve w p =
     (case locate w p of
        Inl e \<Rightarrow> Inl e
      | Inr (k, None) \<Rightarrow> Inl ENOENT
      | Inr (k, Some nd) \<Rightarrow> Inr (k, nd))"

text \<open>The node a path resolves to, when it resolves.\<close>

definition node_at :: "world \<Rightarrow> string \<Rightarrow> node option" where
  "node_at w p = (case resolve w p of Inl e \<Rightarrow> None | Inr (k, nd) \<Rightarrow> Some nd)"

text \<open>The node under a key; the root is a directory that is always there.\<close>

definition node_of_key :: "world \<Rightarrow> string \<Rightarrow> node option" where
  "node_of_key w k = (if k = ''/'' then Some Dir else map_of (entries w) k)"

text \<open>The names in the directory with key \<open>k\<close>, sorted, as \<^verbatim>\<open>Readdirnames\<close> and a sort give them.\<close>

definition is_name :: "string \<Rightarrow> bool" where
  "is_name s = (s \<noteq> [] \<and> s \<noteq> ''.'' \<and> s \<noteq> ''..'' \<and> CHR ''/'' \<notin> set s)"

definition children_names :: "world \<Rightarrow> string \<Rightarrow> string list" where
  "children_names w k =
     sort (remdups
       (map (\<lambda>q. drop (length (child k [])) q)
          (filter (\<lambda>q. take (length (child k [])) q = child k []
                        \<and> is_name (drop (length (child k [])) q))
             (map fst (entries w)))))"

definition has_children :: "world \<Rightarrow> string \<Rightarrow> bool" where
  "has_children w k = (children_names w k \<noteq> [])"

subsection \<open>\<^verbatim>\<open>filepath.Glob\<close>\<close>

text \<open>
  \<^verbatim>\<open>Glob\<close> for a pattern whose elements are literal names followed by elements that
  are a lone \<^verbatim>\<open>*\<close>, which is what \<^verbatim>\<open>Manifests\<close> builds when the store root has no
  pattern characters. \<^verbatim>\<open>Glob\<close> takes the literal part as a directory and goes down one
  level per pattern element: a path reached so far that \<^verbatim>\<open>os.Stat\<close> shows to be a
  directory gives, for each of its names that matches, the path joined with the name;
  any other path gives nothing. A pattern without \<^verbatim>\<open>*\<close> gives itself when it exists.
  Such a pattern is never malformed, so the result is never an error.
\<close>

definition match_elem :: "string \<Rightarrow> string \<Rightarrow> bool" where
  "match_elem pat s = (pat = ''*'' \<or> pat = s)"

definition glob_level :: "world \<Rightarrow> string list \<Rightarrow> string \<Rightarrow> string list" where
  "glob_level w ds pat =
     concat (map (\<lambda>d.
        (case resolve w d of
           Inr (k, Dir) \<Rightarrow> map (\<lambda>n. filepath_Join [d, n]) (filter (match_elem pat) (children_names w k))
         | _ \<Rightarrow> [])) ds)"

definition filepath_Glob :: "string \<Rightarrow> world \<Rightarrow> ('n error + string list) \<times> world" where
  "filepath_Glob pattern w =
     (let lit = takeWhile (\<lambda>s. s \<noteq> ''*'') (split_path pattern);
          pats = dropWhile (\<lambda>s. s \<noteq> ''*'') (split_path pattern)
      in if pats = [] then
           (Inr (case locate w pattern of Inr (k, Some nd) \<Rightarrow> [pattern] | _ \<Rightarrow> []),
            called ''glob'' pattern w)
         else
           (Inr (foldl (glob_level w)
                   [if lit = [] then ''.'' else if lit = [[]] then ''/'' else join_path lit] pats),
            called ''glob'' pattern w))"

subsection \<open>\<^verbatim>\<open>os\<close>\<close>

definition file_info :: "string \<Rightarrow> node \<Rightarrow> FileInfo" where
  "file_info p nd =
     (case nd of
        File bs \<Rightarrow> \<lparr>fi_Name = filepath_Base p, fi_Size = of_nat (length bs), fi_IsDir = False\<rparr>
      | _ \<Rightarrow> \<lparr>fi_Name = filepath_Base p, fi_Size = 0, fi_IsDir = True\<rparr>)"

text \<open>\<^verbatim>\<open>os.Stat\<close> follows a symbolic link, so it fails on one whose target is missing.\<close>

definition os_Stat :: "string \<Rightarrow> world \<Rightarrow> ('n error + FileInfo) \<times> world" where
  "os_Stat p w =
     (case resolve w p of
        Inl e \<Rightarrow> (Inl (PathError ''stat'' p e), called ''stat'' p w)
      | Inr (k, Dangling) \<Rightarrow> (Inl (PathError ''stat'' p ENOENT), called ''stat'' p w)
      | Inr (k, nd) \<Rightarrow> (Inr (file_info p nd), called ''stat'' p w))"

text \<open>
  An open file is known by the path it was opened with and the key it resolved to: the
  functions below run alone, so the key names the same node from \<^verbatim>\<open>Open\<close> or
  \<^verbatim>\<open>Create\<close> to \<^verbatim>\<open>Close\<close>.
\<close>

record handle =
  h_name :: string
  h_key :: string

definition os_Open :: "string \<Rightarrow> world \<Rightarrow> ('n error + handle) \<times> world" where
  "os_Open p w =
     (case resolve w p of
        Inl e \<Rightarrow> (Inl (PathError ''open'' p e), called ''open'' p w)
      | Inr (k, Dangling) \<Rightarrow> (Inl (PathError ''open'' p ENOENT), called ''open'' p w)
      | Inr (k, nd) \<Rightarrow> (Inr \<lparr>h_name = p, h_key = k\<rparr>, called ''open'' p w))"

definition file_Stat :: "handle \<Rightarrow> world \<Rightarrow> ('n error + FileInfo) \<times> world" where
  "file_Stat f w =
     (case node_of_key w (h_key f) of
        None \<Rightarrow> (Inl (PathError ''stat'' (h_name f) EBADF), called ''fstat'' (h_name f) w)
      | Some nd \<Rightarrow> (Inr (file_info (h_name f) nd), called ''fstat'' (h_name f) w))"

text \<open>All the bytes a reader of the open file gets; reading a directory fails.\<close>

definition file_Read :: "handle \<Rightarrow> world \<Rightarrow> ('n error + string) \<times> world" where
  "file_Read f w =
     (case node_of_key w (h_key f) of
        Some (File bs) \<Rightarrow> (Inr bs, called ''read'' (h_name f) w)
      | Some Dir \<Rightarrow> (Inl (PathError ''read'' (h_name f) EISDIR), called ''read'' (h_name f) w)
      | _ \<Rightarrow> (Inl (PathError ''read'' (h_name f) EBADF), called ''read'' (h_name f) w))"

definition file_Close :: "handle \<Rightarrow> world \<Rightarrow> world" where
  "file_Close f w = called ''close'' (h_name f) w"

definition set_node :: "string \<Rightarrow> node \<Rightarrow> world \<Rightarrow> world" where
  "set_node k nd w = w\<lparr>entries := (k, nd) # filter (\<lambda>e. fst e \<noteq> k) (entries w)\<rparr>"

definition del_node :: "string \<Rightarrow> world \<Rightarrow> world" where
  "del_node k w = w\<lparr>entries := filter (\<lambda>e. fst e \<noteq> k) (entries w)\<rparr>"

text \<open>Appending to the open file (a write at its end).\<close>

definition file_Write :: "handle \<Rightarrow> string \<Rightarrow> world \<Rightarrow> 'n error option \<times> world" where
  "file_Write f bs w =
     (case node_of_key w (h_key f) of
        Some (File old) \<Rightarrow> (None, called ''write'' (h_name f) (set_node (h_key f) (File (old @ bs)) w))
      | _ \<Rightarrow> (Some (PathError ''write'' (h_name f) EBADF), called ''write'' (h_name f) w))"

text \<open>
  \<^verbatim>\<open>os.Create\<close> opens with create and truncate: the path must resolve up to its last
  element, which must not be a directory, and the file is empty afterwards. A missing last
  element written with a slash after it is refused as a directory. Through a link with a
  missing target it creates the target, so the path then reads as a file.
\<close>

definition os_Create :: "string \<Rightarrow> world \<Rightarrow> ('n error + handle) \<times> world" where
  "os_Create p w =
     (case locate w p of
        Inl e \<Rightarrow> (Inl (PathError ''open'' p e), called ''create'' p w)
      | Inr (k, Some Dir) \<Rightarrow> (Inl (PathError ''open'' p EISDIR), called ''create'' p w)
      | Inr (k, None) \<Rightarrow>
          if last p = CHR ''/'' then (Inl (PathError ''open'' p EISDIR), called ''create'' p w)
          else (Inr \<lparr>h_name = p, h_key = k\<rparr>, called ''create'' p (set_node k (File []) w))
      | Inr (k, Some nd) \<Rightarrow>
          (Inr \<lparr>h_name = p, h_key = k\<rparr>, called ''create'' p (set_node k (File []) w)))"

text \<open>
  \<^verbatim>\<open>os.MkdirAll\<close> as it recurses: a path that \<^verbatim>\<open>Stat\<close> shows to be a directory is
  done; one that it shows to be something else is an error; otherwise the parent (the
  path without its last element, if anything is left) is made first and then
  \<^verbatim>\<open>Mkdir\<close> is called on the path. When \<^verbatim>\<open>Mkdir\<close> fails and the path is a
  directory all the same, that is no error.
\<close>

definition mkdir_parent :: "string \<Rightarrow> string" where
  "mkdir_parent path =
     rev (dropWhile (\<lambda>c. c \<noteq> CHR ''/'') (dropWhile (\<lambda>c. c = CHR ''/'') (rev path)))"

definition os_Mkdir :: "string \<Rightarrow> world \<Rightarrow> 'n error option \<times> world" where
  "os_Mkdir path w =
     (case locate w path of
        Inl e \<Rightarrow> (Some (PathError ''mkdir'' path e), w)
      | Inr (k, None) \<Rightarrow> (None, set_node k Dir w)
      | Inr (k, Some Dir) \<Rightarrow> (None, w)
      | Inr (k, Some nd) \<Rightarrow> (Some (PathError ''mkdir'' path EEXIST), w))"

fun MkdirAll_rec :: "nat \<Rightarrow> string \<Rightarrow> world \<Rightarrow> 'n error option \<times> world" where
  "MkdirAll_rec 0 path w = os_Mkdir path w"
| "MkdirAll_rec (Suc n) path w =
     (case resolve w path of
        Inr (k, Dir) \<Rightarrow> (None, w)
      | Inr (k, File bs) \<Rightarrow> (Some (PathError ''mkdir'' path ENOTDIR), w)
      | _ \<Rightarrow>
          if mkdir_parent path = [] then os_Mkdir path w
          else
            (case MkdirAll_rec n (mkdir_parent path) w of
               (Some err, w') \<Rightarrow> (Some err, w')
             | (None, w') \<Rightarrow> os_Mkdir path w'))"

text \<open>The parent is shorter than the path, so the length of the path bounds the recursion.\<close>

definition os_MkdirAll :: "string \<Rightarrow> world \<Rightarrow> 'n error option \<times> world" where
  "os_MkdirAll path w =
     (case MkdirAll_rec (Suc (length path)) path w of
        (r, w') \<Rightarrow> (r, called ''mkdirall'' path w'))"

text \<open>
  \<^verbatim>\<open>os.Remove\<close> unlinks a file or a link and removes an empty directory. The root
  cannot be removed, and a path that ends in \<^verbatim>\<open>.\<close> or \<^verbatim>\<open>..\<close> is refused.
\<close>

definition last_elem :: "string \<Rightarrow> string" where
  "last_elem p = (case filter (\<lambda>s. s \<noteq> []) (split_path p) of [] \<Rightarrow> [] | s # ss \<Rightarrow> last (s # ss))"

definition os_Remove :: "string \<Rightarrow> world \<Rightarrow> 'n error option \<times> world" where
  "os_Remove p w =
     (case locate w p of
        Inl e \<Rightarrow> (Some (PathError ''remove'' p e), called ''remove'' p w)
      | Inr (k, None) \<Rightarrow> (Some (PathError ''remove'' p ENOENT), called ''remove'' p w)
      | Inr (k, Some Dir) \<Rightarrow>
          if last_elem p = ''.'' then (Some (PathError ''remove'' p EINVAL), called ''remove'' p w)
          else if last_elem p = ''..'' then (Some (PathError ''remove'' p ENOTEMPTY), called ''remove'' p w)
          else if k = ''/'' then (Some (PathError ''remove'' p EBUSY), called ''remove'' p w)
          else if has_children w k then (Some (PathError ''remove'' p ENOTEMPTY), called ''remove'' p w)
          else (None, called ''remove'' p (del_node k w))
      | Inr (k, Some nd) \<Rightarrow> (None, called ''remove'' p (del_node k w)))"

subsection \<open>\<^verbatim>\<open>encoding/hex\<close>\<close>

definition hex_digit :: "nat \<Rightarrow> char" where
  "hex_digit n = ''0123456789abcdef'' ! (n mod 16)"

definition hex_EncodeToString :: "string \<Rightarrow> string" where
  "hex_EncodeToString bs =
     concat (map (\<lambda>b. [hex_digit (of_char b div 16), hex_digit (of_char b mod 16)]) bs)"

subsection \<open>What the source file takes from elsewhere\<close>

text \<open>
  The source file calls code that is not in it: the package \<^verbatim>\<open>types/model\<close>
  (the type \<^verbatim>\<open>Name\<close> and its functions), \<^verbatim>\<open>GetManifestPath\<close>,
  \<^verbatim>\<open>PruneDirectory\<close> and the type \<^verbatim>\<open>ConfigV2\<close> of its own package, and the
  libraries \<^verbatim>\<open>encoding/json\<close> and \<^verbatim>\<open>crypto/sha256\<close>. They are the fields of a
  record that every function below takes as its first argument, so that what is proved
  holds for whatever stands behind these names. \<open>'n\<close> is the type \<^verbatim>\<open>model.Name\<close>.

  \<^item> \<open>GetManifestPath\<close> is the result of \<^verbatim>\<open>GetManifestPath()\<close>: the store root
    or an error, the same for every call of a run.
  \<^item> \<open>Marshal_config\<close> is the result of \<^verbatim>\<open>json.Marshal(config)\<close> for the one
    \<^verbatim>\<open>ConfigV2\<close> value that \<^verbatim>\<open>createAppleManifests\<close> builds.
  \<^item> \<open>json_Encode m\<close> is what \<^verbatim>\<open>json.NewEncoder(f).Encode(m)\<close> writes, or its error.
  \<^item> \<open>json_Decode bs\<close> is what \<^verbatim>\<open>json.NewDecoder(r).Decode(&m)\<close> does for a fresh
    \<^verbatim>\<open>m\<close> and a reader \<^verbatim>\<open>r\<close> that yields the bytes \<open>bs\<close>: the decoded manifest
    or an error, and how many bytes it has read from \<^verbatim>\<open>r\<close> when it returns (the
    decoder reads ahead in blocks and stops reading once it holds a whole JSON value).
  \<^item> \<open>sha256 bs\<close> is the 32 bytes of \<^verbatim>\<open>sha256.Sum256(bs)\<close>.
\<close>

record 'n env =
  IsFullyQualified :: "'n \<Rightarrow> bool"
  IsValid :: "'n \<Rightarrow> bool"
  Filepath :: "'n \<Rightarrow> string"
  Name_String :: "'n \<Rightarrow> string"
  ParseName :: "string \<Rightarrow> 'n"
  ParseNameFromFilepath :: "string \<Rightarrow> 'n"
  GetManifestPath :: "'n error + string"
  PruneDirectory :: "string \<Rightarrow> world \<Rightarrow> 'n error option \<times> world"
  Marshal_config :: "json_error + string"
  json_Encode :: "Manifest \<Rightarrow> json_error + string"
  json_Decode :: "string \<Rightarrow> (json_error + Manifest) \<times> nat"
  sha256 :: "string \<Rightarrow> string"

subsection \<open>\<^verbatim>\<open>Manifest.Remove\<close>\<close>

definition Remove :: "'n env \<Rightarrow> Manifest \<Rightarrow> world \<Rightarrow> 'n error option \<times> world" where
  "Remove E m w =
     (case os_Remove (filepath m) w of
        (Some err, w1) \<Rightarrow> (Some err, w1)
      | (None, w1) \<Rightarrow>
          (case GetManifestPath E of
             Inl err \<Rightarrow> (Some err, w1)
           | Inr manifests \<Rightarrow> PruneDirectory E manifests w1))"

subsection \<open>\<^verbatim>\<open>ParseNamedManifest\<close>\<close>

text \<open>
  The decoder reads through \<^verbatim>\<open>io.TeeReader(f, sha256sum)\<close>, so the hash is fed the
  bytes the decoder has read: the first \<open>k\<close> bytes of the file, where \<open>k\<close> is the count
  that \<open>json_Decode\<close> reports. The deferred \<^verbatim>\<open>f.Close()\<close> runs on every return after
  the file is open.
\<close>

definition ParseNamedManifest :: "'n env \<Rightarrow> 'n \<Rightarrow> world \<Rightarrow> ('n error + Manifest) \<times> world" where
  "ParseNamedManifest E n w =
     (if \<not> IsFullyQualified E n then (Inl (Unqualified n), w)
      else
        (case GetManifestPath E of
           Inl err \<Rightarrow> (Inl err, w)
         | Inr manifests \<Rightarrow>
             let p = filepath_Join [manifests, Filepath E n] in
             (case os_Open p w of
                (Inl err, w1) \<Rightarrow> (Inl err, w1)
              | (Inr f, w1) \<Rightarrow>
                  (case file_Stat f w1 of
                     (Inl err, w2) \<Rightarrow> (Inl err, file_Close f w2)
                   | (Inr fi', w2) \<Rightarrow>
                       (case file_Read f w2 of
                          (Inl err, w3) \<Rightarrow> (Inl err, file_Close f w3)
                        | (Inr bs, w3) \<Rightarrow>
                            (case json_Decode E bs of
                               (Inl err, k) \<Rightarrow> (Inl (JSONError err), file_Close f w3)
                             | (Inr m, k) \<Rightarrow>
                                 (Inr (m\<lparr>filepath := p, fi := Some fi',
                                         digest := hex_EncodeToString (sha256 E (take k bs))\<rparr>),
                                  file_Close f w3)))))))"

subsection \<open>\<^verbatim>\<open>WriteManifest\<close>\<close>

definition WriteManifest ::
  "'n env \<Rightarrow> 'n \<Rightarrow> Layer \<Rightarrow> Layer list \<Rightarrow> world \<Rightarrow> 'n error option \<times> world" where
  "WriteManifest E name config layers w =
     (case GetManifestPath E of
        Inl err \<Rightarrow> (Some err, w)
      | Inr manifests \<Rightarrow>
          let p = filepath_Join [manifests, Filepath E name] in
          (case os_MkdirAll (filepath_Dir p) w of
             (Some err, w1) \<Rightarrow> (Some err, w1)
           | (None, w1) \<Rightarrow>
               (case os_Create p w1 of
                  (Inl err, w2) \<Rightarrow> (Some err, w2)
                | (Inr f, w2) \<Rightarrow>
                    let m = \<lparr>SchemaVersion = 2,
                             MediaType = ''application/vnd.docker.distribution.manifest.v2+json'',
                             Config = config, Layers = layers,
                             IsAppleFoundationModel = False,
                             filepath = [], fi = None, digest = []\<rparr>
                    in (case json_Encode E m of
                          Inl err \<Rightarrow> (Some (JSONError err), file_Close f w2)
                        | Inr bs \<Rightarrow>
                            (case file_Write f bs w2 of
                               (r, w3) \<Rightarrow> (r, file_Close f w3))))))"

subsection \<open>\<^verbatim>\<open>GenerateFakeDigest\<close> and \<^verbatim>\<open>createAppleManifests\<close>\<close>

definition GenerateFakeDigest :: "'n env \<Rightarrow> string \<Rightarrow> string" where
  "GenerateFakeDigest E name = hex_EncodeToString (sha256 E (''apple:'' @ name))"

definition templateData :: string where
  "templateData =
     ''{{ if .System }}<|im_start|>system'' @ [CHR 0x0A] @
     ''{{ .System }}<|im_end|>'' @ [CHR 0x0A] @
     ''{{ end }}{{ if .Prompt }}<|im_start|>user'' @ [CHR 0x0A] @
     ''{{ .Prompt }}<|im_end|>'' @ [CHR 0x0A] @
     ''<|im_start|>assistant'' @ [CHR 0x0A] @
     ''{{ end }}{{ .Response }}<|im_end|>''"

text \<open>
  \<^verbatim>\<open>reflect\<close>: a field value reached through an unexported field name is read-only, so
  \<^verbatim>\<open>CanSet()\<close> is false for \<^verbatim>\<open>filepath\<close> and \<^verbatim>\<open>fi\<close>, and the two assignments
  guarded by it do not run.
\<close>

definition CanSet_unexported :: bool where
  "CanSet_unexported = False"

definition createAppleManifests ::
  "'n env \<Rightarrow> world \<Rightarrow> ('n error + ('n \<rightharpoonup> Manifest)) \<times> world" where
  "createAppleManifests E w =
     (let name = ParseName E ''apple'' in
      if \<not> IsValid E name then (Inl (ErrorString ''invalid model name''), w)
      else
        let fakeDigest = GenerateFakeDigest E ''apple'' in
        (case Marshal_config E of
           Inl err \<Rightarrow> (Inl (Errorf ''failed to marshal config:'' (Some (JSONError err))), w)
         | Inr configData \<Rightarrow>
             let configLayer = \<lparr>Layer.MediaType = ''application/vnd.ollama.image.config'',
                                Digest = fakeDigest,
                                Size = of_nat (length configData)\<rparr>;
                 modelLayer = \<lparr>Layer.MediaType = ''application/vnd.ollama.image.applefoundationmodel'',
                               Digest = fakeDigest,
                               Size = 1024 * 1024\<rparr>;
                 templateLayer = \<lparr>Layer.MediaType = ''application/vnd.ollama.image.template'',
                                  Digest = fakeDigest,
                                  Size = of_nat (length templateData)\<rparr>;
                 manifest = \<lparr>SchemaVersion = 2,
                             MediaType = ''application/vnd.docker.distribution.manifest.v2+json'',
                             Config = configLayer,
                             Layers = [modelLayer, templateLayer],
                             IsAppleFoundationModel = True,
                             filepath = [], fi = None, digest = []\<rparr>;
                 manifest1 = (if CanSet_unexported then manifest\<lparr>filepath := []\<rparr> else manifest);
                 manifest2 =
                   (if CanSet_unexported
                    then manifest1\<lparr>fi := Some \<lparr>fi_Name = Filepath E name,
                                               fi_Size = Manifest_Size manifest1,
                                               fi_IsDir = False\<rparr>\<rparr>
                    else manifest1)
             in (Inr [name \<mapsto> manifest2],
                 slog Info ''registered Apple Foundation Model'' [] w)))"

subsection \<open>\<^verbatim>\<open>Manifests\<close>\<close>

text \<open>
  The body of the loop over the matches, with the map \<open>ms\<close> built so far. A match that
  is a directory is passed over.
\<close>

fun Manifests_loop ::
  "'n env \<Rightarrow> bool \<Rightarrow> string \<Rightarrow> string list \<Rightarrow> ('n \<rightharpoonup> Manifest) \<Rightarrow> world
     \<Rightarrow> ('n error + ('n \<rightharpoonup> Manifest)) \<times> world" where
  "Manifests_loop E continueOnError manifests [] ms w = (Inr ms, w)"
| "Manifests_loop E continueOnError manifests (match # matches) ms w =
     (case os_Stat match w of
        (Inl err, w1) \<Rightarrow> (Inl err, w1)
      | (Inr fi', w1) \<Rightarrow>
          if \<not> fi_IsDir fi' then
            (case filepath_Rel manifests match of
               Inl err \<Rightarrow>
                 if \<not> continueOnError then (Inl (Errorf match (Some err)), w1)
                 else Manifests_loop E continueOnError manifests matches ms
                        (slog Warn ''bad filepath'' [match] w1)
             | Inr rel \<Rightarrow>
                 if \<not> IsValid E (ParseNameFromFilepath E rel) then
                   (if \<not> continueOnError then (Inl (Errorf rel None), w1)
                    else Manifests_loop E continueOnError manifests matches ms
                           (slog Warn ''bad manifest name'' [rel] w1))
                 else
                   (case ParseNamedManifest E (ParseNameFromFilepath E rel) w1 of
                      (Inl err, w2) \<Rightarrow>
                        if \<not> continueOnError
                        then (Inl (Errorf (Name_String E (ParseNameFromFilepath E rel)) (Some err)), w2)
                        else Manifests_loop E continueOnError manifests matches ms
                               (slog Warn ''bad manifest''
                                  [Name_String E (ParseNameFromFilepath E rel)] w2)
                    | (Inr m, w2) \<Rightarrow>
                        Manifests_loop E continueOnError manifests matches
                          (ms(ParseNameFromFilepath E rel \<mapsto> m)) w2))
          else Manifests_loop E continueOnError manifests matches ms w1)"

definition Manifests ::
  "'n env \<Rightarrow> bool \<Rightarrow> world \<Rightarrow> ('n error + ('n \<rightharpoonup> Manifest)) \<times> world" where
  "Manifests E continueOnError w =
     (case GetManifestPath E of
        Inl err \<Rightarrow> (Inl err, w)
      | Inr manifests \<Rightarrow>
          (case filepath_Glob (filepath_Join [manifests, ''*'', ''*'', ''*'', ''*'']) w of
             (Inl err, w1) \<Rightarrow> (Inl err, w1)
           | (Inr matches, w1) \<Rightarrow>
               (case Manifests_loop E continueOnError manifests matches Map.empty w1 of
                  (Inl err, w2) \<Rightarrow> (Inl err, w2)
                | (Inr ms, w2) \<Rightarrow>
                    let appleFoundationModelEnabled =
                          (os_Getenv ''OLLAMA_ENABLE_APPLE_FOUNDATION_MODEL'' w2 = ''1'');
                        w3 = slog Info ''check for Apple Foundation Models''
                               [if appleFoundationModelEnabled then ''true'' else ''false''] w2
                    in if appleFoundationModelEnabled then
                         (case createAppleManifests E w3 of
                            (Inl err, w4) \<Rightarrow>
                              if \<not> continueOnError
                              then (Inl (Errorf ''failed to get models:'' (Some err)), w4)
                              else (Inr ms, slog Warn ''failed to get models'' [] w4)
                          | (Inr manifests', w4) \<Rightarrow> (Inr (ms ++ manifests'), w4))
                       else (Inr ms, w3))))"

subsection \<open>The loop of \<^verbatim>\<open>Manifests\<close> without its effects\<close>

text \<open>
  What the body of the loop does with one match, read off the files: \<^verbatim>\<open>os.Stat\<close>
  fails; the match is a directory and is passed over; the match is bad (its path cannot
  be made relative, its name is not valid, or \<^verbatim>\<open>ParseNamedManifest\<close> fails), with the
  error that is returned when \<open>continueOnError\<close> is false and the record that is logged
  when it is true; or the match gives a manifest under a name.
\<close>

datatype 'n outcome =
    StatFailed "'n error"
  | Skipped
  | Bad "'n error" "level \<times> string \<times> string list"
  | Good 'n Manifest

definition match_outcome :: "'n env \<Rightarrow> string \<Rightarrow> world \<Rightarrow> string \<Rightarrow> 'n outcome" where
  "match_outcome E manifests w match =
     (case fst (os_Stat match w :: ('n error + FileInfo) \<times> world) of
        Inl err \<Rightarrow> StatFailed err
      | Inr fi' \<Rightarrow>
          if fi_IsDir fi' then Skipped
          else
            (case filepath_Rel manifests match of
               Inl err \<Rightarrow> Bad (Errorf match (Some err)) (Warn, ''bad filepath'', [match])
             | Inr rel \<Rightarrow>
                 if \<not> IsValid E (ParseNameFromFilepath E rel)
                 then Bad (Errorf rel None) (Warn, ''bad manifest name'', [rel])
                 else
                   (case fst (ParseNamedManifest E (ParseNameFromFilepath E rel) w) of
                      Inl err \<Rightarrow>
                        Bad (Errorf (Name_String E (ParseNameFromFilepath E rel)) (Some err))
                          (Warn, ''bad manifest'', [Name_String E (ParseNameFromFilepath E rel)])
                    | Inr m \<Rightarrow> Good (ParseNameFromFilepath E rel) m)))"

text \<open>The result of the loop over a list of matches, from their outcomes.\<close>

fun loop_result ::
  "'n env \<Rightarrow> bool \<Rightarrow> string \<Rightarrow> world \<Rightarrow> string list \<Rightarrow> ('n \<rightharpoonup> Manifest)
     \<Rightarrow> 'n error + ('n \<rightharpoonup> Manifest)" where
  "loop_result E continueOnError manifests w [] ms = Inr ms"
| "loop_result E continueOnError manifests w (match # matches) ms =
     (case match_outcome E manifests w match of
        StatFailed err \<Rightarrow> Inl err
      | Skipped \<Rightarrow> loop_result E continueOnError manifests w matches ms
      | Bad err r \<Rightarrow>
          if continueOnError then loop_result E continueOnError manifests w matches ms
          else Inl err
      | Good n m \<Rightarrow> loop_result E continueOnError manifests w matches (ms(n \<mapsto> m)))"

section \<open>An instance of the parameters\<close>

text \<open>
  The theorems below hold for every value of the record \<open>env\<close>. To run the functions
  on concrete stores, this section gives one value of it: a sketch of
  \<^verbatim>\<open>encoding/json\<close> for the type \<^verbatim>\<open>Manifest\<close>, SHA-256, and a name type with four
  parts. Nothing is proved about the sketch in general; it is evaluated on concrete
  inputs only.
\<close>

subsection \<open>JSON text\<close>

datatype json =
    JNull
  | JBool bool
  | JNumber string
  | JString string
  | JArray "json list"
  | JObject "(string \<times> json) list"

text \<open>
  The result of reading a value from the front of a text: the value and the text after
  it, a byte that cannot stand where it stands, or the end of the text inside a value.
\<close>

datatype 'a parsed = Parsed 'a string | Invalid | Truncated

definition and_then :: "'a parsed \<Rightarrow> ('a \<Rightarrow> string \<Rightarrow> 'b parsed) \<Rightarrow> 'b parsed" where
  "and_then r f = (case r of Parsed x rest \<Rightarrow> f x rest | Invalid \<Rightarrow> Invalid | Truncated \<Rightarrow> Truncated)"

definition is_space :: "char \<Rightarrow> bool" where
  "is_space c = (c = CHR '' '' \<or> c = CHR 0x09 \<or> c = CHR 0x0A \<or> c = CHR 0x0D)"

definition is_digit :: "char \<Rightarrow> bool" where
  "is_digit c = (48 \<le> (of_char c :: nat) \<and> (of_char c :: nat) \<le> 57)"

definition skip_ws :: "string \<Rightarrow> string" where
  "skip_ws cs = dropWhile is_space cs"

definition hex_val :: "char \<Rightarrow> nat option" where
  "hex_val c =
     (let n = (of_char c :: nat)
      in if 48 \<le> n \<and> n \<le> 57 then Some (n - 48)
         else if 97 \<le> n \<and> n \<le> 102 then Some (n - 87)
         else if 65 \<le> n \<and> n \<le> 70 then Some (n - 55)
         else None)"

definition hex4 :: "string \<Rightarrow> nat option" where
  "hex4 hs =
     (case map hex_val hs of
        [Some a, Some b, Some c, Some d] \<Rightarrow> Some (((a * 16 + b) * 16 + c) * 16 + d)
      | _ \<Rightarrow> None)"

text \<open>UTF-8: the bytes of a code point, and the length of the well-formed sequence at the
  front of a text (0 when there is none).\<close>

definition utf8_encode :: "nat \<Rightarrow> string" where
  "utf8_encode n =
     (if n < 0x80 then [char_of n]
      else if n < 0x800 then [char_of (0xC0 + n div 64), char_of (0x80 + n mod 64)]
      else if n < 0x10000 then
        [char_of (0xE0 + n div 4096), char_of (0x80 + n div 64 mod 64), char_of (0x80 + n mod 64)]
      else
        [char_of (0xF0 + n div 262144), char_of (0x80 + n div 4096 mod 64),
         char_of (0x80 + n div 64 mod 64), char_of (0x80 + n mod 64)])"

definition in_range :: "nat \<Rightarrow> nat \<Rightarrow> char \<Rightarrow> bool" where
  "in_range lo hi c = (lo \<le> of_char c \<and> of_char c \<le> hi)"

definition utf8_len :: "string \<Rightarrow> nat" where
  "utf8_len cs =
     (case cs of
        [] \<Rightarrow> 0
      | c # r \<Rightarrow>
          let b = (of_char c :: nat) in
          if b < 0x80 then 1
          else if 0xC2 \<le> b \<and> b \<le> 0xDF then
            (case r of c1 # r1 \<Rightarrow> if in_range 0x80 0xBF c1 then 2 else 0 | [] \<Rightarrow> 0)
          else if 0xE0 \<le> b \<and> b \<le> 0xEF then
            (case r of
               c1 # c2 # r2 \<Rightarrow>
                 if in_range (if b = 0xE0 then 0xA0 else 0x80) (if b = 0xED then 0x9F else 0xBF) c1
                    \<and> in_range 0x80 0xBF c2
                 then 3 else 0
             | _ \<Rightarrow> 0)
          else if 0xF0 \<le> b \<and> b \<le> 0xF4 then
            (case r of
               c1 # c2 # c3 # r3 \<Rightarrow>
                 if in_range (if b = 0xF0 then 0x90 else 0x80) (if b = 0xF4 then 0x8F else 0xBF) c1
                    \<and> in_range 0x80 0xBF c2 \<and> in_range 0x80 0xBF c3
                 then 4 else 0
             | _ \<Rightarrow> 0)
          else 0)"

definition replacement :: string where
  "replacement = utf8_encode 0xFFFD"

subsection \<open>The encoder\<close>

text \<open>
  A string is written between quotes; quote and backslash get a backslash, the control
  characters and \<^verbatim>\<open><\<close>, \<^verbatim>\<open>>\<close>, \<^verbatim>\<open>&\<close> are escaped, U+2028 and U+2029 are
  escaped, and a byte that does not start well-formed UTF-8 is written as the escape of
  U+FFFD.
\<close>

definition bslash :: char where
  "bslash = CHR 0x5C"

definition dquote :: char where
  "dquote = CHR 0x22"

definition enc_ascii :: "char \<Rightarrow> string" where
  "enc_ascii c =
     (if c = dquote \<or> c = bslash then [bslash, c]
      else if c = CHR 0x08 then [bslash, CHR ''b'']
      else if c = CHR 0x0C then [bslash, CHR ''f'']
      else if c = CHR 0x0A then [bslash, CHR ''n'']
      else if c = CHR 0x0D then [bslash, CHR ''r'']
      else if c = CHR 0x09 then [bslash, CHR ''t'']
      else if (of_char c :: nat) < 0x20 \<or> c = CHR ''<'' \<or> c = CHR ''>'' \<or> c = CHR ''&''
      then bslash # ''u00'' @ [hex_digit (of_char c div 16), hex_digit (of_char c mod 16)]
      else [c])"

fun enc_chars :: "string \<Rightarrow> string" where
  "enc_chars [] = []"
| "enc_chars (c # cs) =
     (if (of_char c :: nat) < 0x80 then enc_ascii c @ enc_chars cs
      else
        (case utf8_len (c # cs) of
           0 \<Rightarrow> bslash # ''ufffd'' @ enc_chars cs
         | Suc m \<Rightarrow>
             if c # take m cs = utf8_encode 0x2028 then bslash # ''u2028'' @ enc_chars (drop m cs)
             else if c # take m cs = utf8_encode 0x2029 then bslash # ''u2029'' @ enc_chars (drop m cs)
             else c # take m cs @ enc_chars (drop m cs)))"

definition enc_string :: "string \<Rightarrow> string" where
  "enc_string s = dquote # enc_chars s @ [dquote]"

fun dec_nat :: "nat \<Rightarrow> string" where
  "dec_nat n = (if n < 10 then [char_of (48 + n)] else dec_nat (n div 10) @ [char_of (48 + n mod 10)])"

definition enc_int :: "int \<Rightarrow> string" where
  "enc_int i = (if i < 0 then CHR ''-'' # dec_nat (nat (- i)) else dec_nat (nat i))"

definition enc_key :: "string \<Rightarrow> string" where
  "enc_key k = dquote # k @ [dquote, CHR '':'']"

definition enc_Layer :: "Layer \<Rightarrow> string" where
  "enc_Layer l =
     ''{'' @ enc_key ''mediaType'' @ enc_string (Layer.MediaType l) @
     '','' @ enc_key ''digest'' @ enc_string (Digest l) @
     '','' @ enc_key ''size'' @ enc_int (sint (Size l)) @ ''}''"

fun enc_list :: "string list \<Rightarrow> string" where
  "enc_list [] = []"
| "enc_list [s] = s"
| "enc_list (s # t # ss) = s @ CHR '','' # enc_list (t # ss)"

definition enc_Manifest :: "Manifest \<Rightarrow> string" where
  "enc_Manifest m =
     ''{'' @ enc_key ''schemaVersion'' @ enc_int (SchemaVersion m) @
     '','' @ enc_key ''mediaType'' @ enc_string (Manifest.MediaType m) @
     '','' @ enc_key ''config'' @ enc_Layer (Config m) @
     '','' @ enc_key ''layers'' @
        (if Layers m = [] then ''null'' else ''['' @ enc_list (map enc_Layer (Layers m)) @ '']'') @
     '','' @ enc_key ''IsAppleFoundationModel'' @
        (if IsAppleFoundationModel m then ''true'' else ''false'') @ ''}''"

text \<open>\<^verbatim>\<open>Encode\<close> writes the value and a newline.\<close>

definition go_json_Encode :: "Manifest \<Rightarrow> json_error + string" where
  "go_json_Encode m = Inr (enc_Manifest m @ [CHR 0x0A])"

subsection \<open>The decoder\<close>

definition unescape :: "char \<Rightarrow> string option" where
  "unescape e =
     (if e = dquote \<or> e = bslash \<or> e = CHR ''/'' then Some [e]
      else if e = CHR ''b'' then Some [CHR 0x08]
      else if e = CHR ''f'' then Some [CHR 0x0C]
      else if e = CHR ''n'' then Some [CHR 0x0A]
      else if e = CHR ''r'' then Some [CHR 0x0D]
      else if e = CHR ''t'' then Some [CHR 0x09]
      else None)"

definition prepend :: "string \<Rightarrow> string parsed \<Rightarrow> string parsed" where
  "prepend d r = and_then r (\<lambda>s rest. Parsed (d @ s) rest)"

text \<open>
  The text of a string after its opening quote. An escape \<^verbatim>\<open>\u\<close> of a high surrogate
  followed by one of a low surrogate is one code point; a surrogate alone, and a byte that
  does not start well-formed UTF-8, become U+FFFD.
\<close>

fun parse_string :: "string \<Rightarrow> string parsed" where
  "parse_string [] = Truncated"
| "parse_string (c # cs) =
     (if c = dquote then Parsed [] cs
      else if (of_char c :: nat) < 0x20 then Invalid
      else if c = bslash then
        (case cs of
           [] \<Rightarrow> Truncated
         | e # es \<Rightarrow>
             if e = CHR ''u'' then
               (if length es < 4 then (if list_all (\<lambda>h. hex_val h \<noteq> None) es then Truncated else Invalid)
                else
                  (case hex4 (take 4 es) of
                     None \<Rightarrow> Invalid
                   | Some hi \<Rightarrow>
                       if 0xD800 \<le> hi \<and> hi < 0xDC00 \<and> take 2 (drop 4 es) = [bslash, CHR ''u'']
                          \<and> (case hex4 (take 4 (drop 6 es)) of
                                None \<Rightarrow> False | Some lo \<Rightarrow> 0xDC00 \<le> lo \<and> lo < 0xE000)
                       then
                         prepend
                           (utf8_encode (0x10000 + (hi - 0xD800) * 1024
                              + (the (hex4 (take 4 (drop 6 es))) - 0xDC00)))
                           (parse_string (drop 10 es))
                       else if 0xD800 \<le> hi \<and> hi < 0xE000
                       then prepend replacement (parse_string (drop 4 es))
                       else prepend (utf8_encode hi) (parse_string (drop 4 es))))
             else
               (case unescape e of
                  None \<Rightarrow> Invalid
                | Some d \<Rightarrow> prepend d (parse_string es)))
      else if (of_char c :: nat) < 0x80 then prepend [c] (parse_string cs)
      else
        (case utf8_len (c # cs) of
           0 \<Rightarrow> prepend replacement (parse_string cs)
         | Suc m \<Rightarrow> prepend (c # take m cs) (parse_string (drop m cs))))"

text \<open>A number: sign, integer part, fraction, exponent. The result is its text.\<close>

definition digits1 :: "string \<Rightarrow> string parsed" where
  "digits1 cs =
     (if takeWhile is_digit cs = [] then (if cs = [] then Truncated else Invalid)
      else Parsed (takeWhile is_digit cs) (dropWhile is_digit cs))"

definition parse_number :: "string \<Rightarrow> string parsed" where
  "parse_number cs =
     and_then
       (case cs of
          c # r \<Rightarrow> if c = CHR ''-'' then prepend [c] (Parsed [] r) else Parsed [] cs
        | [] \<Rightarrow> Truncated)
       (\<lambda>sign r0.
          and_then
            (case r0 of
               c # r \<Rightarrow> if c = CHR ''0'' then Parsed [c] r else digits1 r0
             | [] \<Rightarrow> Truncated)
            (\<lambda>ip r1.
               and_then
                 (case r1 of
                    c # r \<Rightarrow> if c = CHR ''.'' then prepend [c] (digits1 r) else Parsed [] r1
                  | [] \<Rightarrow> Parsed [] r1)
                 (\<lambda>fp r2.
                    and_then
                      (case r2 of
                         c # r \<Rightarrow>
                           if c = CHR ''e'' \<or> c = CHR ''E'' then
                             (case r of
                                s # r' \<Rightarrow>
                                  if s = CHR ''+'' \<or> s = CHR ''-'' then prepend [c, s] (digits1 r')
                                  else prepend [c] (digits1 r)
                              | [] \<Rightarrow> Truncated)
                           else Parsed [] r2
                       | [] \<Rightarrow> Parsed [] r2)
                      (\<lambda>ep r3. Parsed (sign @ ip @ fp @ ep) r3))))"

definition parse_literal :: "string \<Rightarrow> json \<Rightarrow> string \<Rightarrow> json parsed" where
  "parse_literal lit v cs =
     (if take (length lit) cs = lit then Parsed v (drop (length lit) cs)
      else if cs = take (length cs) lit then Truncated
      else Invalid)"

text \<open>
  A value, the rest of an array and the rest of an object. The first argument bounds the
  number of nested calls; the decoder below gives more than the text has bytes.
\<close>

fun parse_value :: "nat \<Rightarrow> string \<Rightarrow> json parsed"
  and parse_elems :: "nat \<Rightarrow> json list \<Rightarrow> string \<Rightarrow> json parsed"
  and parse_members :: "nat \<Rightarrow> (string \<times> json) list \<Rightarrow> string \<Rightarrow> json parsed" where
  "parse_value 0 cs = Invalid"
| "parse_value (Suc n) cs =
     (case skip_ws cs of
        [] \<Rightarrow> Truncated
      | c # r \<Rightarrow>
          if c = CHR ''{'' then
            (case skip_ws r of
               [] \<Rightarrow> Truncated
             | d # r' \<Rightarrow> if d = CHR ''}'' then Parsed (JObject []) r' else parse_members n [] (d # r'))
          else if c = CHR ''['' then
            (case skip_ws r of
               [] \<Rightarrow> Truncated
             | d # r' \<Rightarrow> if d = CHR '']'' then Parsed (JArray []) r' else parse_elems n [] (d # r'))
          else if c = dquote then and_then (parse_string r) (\<lambda>s r'. Parsed (JString s) r')
          else if c = CHR ''-'' \<or> is_digit c then
            and_then (parse_number (c # r)) (\<lambda>l r'. Parsed (JNumber l) r')
          else if c = CHR ''t'' then parse_literal ''true'' (JBool True) (c # r)
          else if c = CHR ''f'' then parse_literal ''false'' (JBool False) (c # r)
          else if c = CHR ''n'' then parse_literal ''null'' JNull (c # r)
          else Invalid)"
| "parse_elems 0 acc cs = Invalid"
| "parse_elems (Suc n) acc cs =
     (case parse_value n cs of
        Parsed v r \<Rightarrow>
          (case skip_ws r of
             [] \<Rightarrow> Truncated
           | d # r' \<Rightarrow>
               if d = CHR '','' then parse_elems n (acc @ [v]) r'
               else if d = CHR '']'' then Parsed (JArray (acc @ [v])) r'
               else Invalid)
      | Invalid \<Rightarrow> Invalid
      | Truncated \<Rightarrow> Truncated)"
| "parse_members 0 acc cs = Invalid"
| "parse_members (Suc n) acc cs =
     (case skip_ws cs of
        [] \<Rightarrow> Truncated
      | q # r \<Rightarrow>
          if q \<noteq> dquote then Invalid
          else
            (case parse_string r of
               Parsed k r1 \<Rightarrow>
                 (case skip_ws r1 of
                    [] \<Rightarrow> Truncated
                  | d # r2 \<Rightarrow>
                      if d \<noteq> CHR '':'' then Invalid
                      else
                        (case parse_value n r2 of
                           Parsed v r3 \<Rightarrow>
                             (case skip_ws r3 of
                                [] \<Rightarrow> Truncated
                              | e # r4 \<Rightarrow>
                                  if e = CHR '','' then parse_members n (acc @ [(k, v)]) r4
                                  else if e = CHR ''}'' then Parsed (JObject (acc @ [(k, v)])) r4
                                  else Invalid)
                         | Invalid \<Rightarrow> Invalid
                         | Truncated \<Rightarrow> Truncated))
             | Invalid \<Rightarrow> Invalid
             | Truncated \<Rightarrow> Truncated))"

subsection \<open>From a JSON value to a \<^verbatim>\<open>Manifest\<close>\<close>

text \<open>
  A key stands for the field whose JSON name it equals without regard to the case of
  ASCII letters; a key that stands for no field is passed over; \<^verbatim>\<open>null\<close> leaves a
  field as it is; a value of the wrong kind for its field is an error. An integer field
  takes a number written as an optional minus sign and digits, within \<^verbatim>\<open>int64\<close>.
\<close>

definition lower :: "char \<Rightarrow> char" where
  "lower c = (if 65 \<le> (of_char c :: nat) \<and> (of_char c :: nat) \<le> 90 then char_of (of_char c + 32 :: nat) else c)"

definition key_is :: "string \<Rightarrow> string \<Rightarrow> bool" where
  "key_is name k = (map lower k = map lower name)"

definition nat_of_digits :: "string \<Rightarrow> nat" where
  "nat_of_digits ds = foldl (\<lambda>n d. 10 * n + (of_char d - 48)) 0 ds"

definition int_of_literal :: "string \<Rightarrow> int option" where
  "int_of_literal l =
     (let ds = (case l of c # r \<Rightarrow> if c = CHR ''-'' then r else l | [] \<Rightarrow> l);
          i = (if ds = l then int (nat_of_digits ds) else - int (nat_of_digits ds))
      in if ds \<noteq> [] \<and> list_all is_digit ds \<and> - (2 ^ 63) \<le> i \<and> i < 2 ^ 63 then Some i else None)"

fun dec_Layer_fields :: "(string \<times> json) list \<Rightarrow> Layer \<Rightarrow> json_error + Layer" where
  "dec_Layer_fields [] l = Inr l"
| "dec_Layer_fields ((k, v) # kvs) l =
     (if v = JNull then dec_Layer_fields kvs l
      else if key_is ''mediaType'' k then
        (case v of
           JString s \<Rightarrow> dec_Layer_fields kvs (l\<lparr>Layer.MediaType := s\<rparr>)
         | _ \<Rightarrow> Inl (UnmarshalTypeError ''Layer.mediaType''))
      else if key_is ''digest'' k then
        (case v of
           JString s \<Rightarrow> dec_Layer_fields kvs (l\<lparr>Digest := s\<rparr>)
         | _ \<Rightarrow> Inl (UnmarshalTypeError ''Layer.digest''))
      else if key_is ''size'' k then
        (case v of
           JNumber t \<Rightarrow>
             (case int_of_literal t of
                Some i \<Rightarrow> dec_Layer_fields kvs (l\<lparr>Size := word_of_int i\<rparr>)
              | None \<Rightarrow> Inl (UnmarshalTypeError ''Layer.size''))
         | _ \<Rightarrow> Inl (UnmarshalTypeError ''Layer.size''))
      else dec_Layer_fields kvs l)"

definition zero_Layer :: Layer where
  "zero_Layer = \<lparr>Layer.MediaType = [], Digest = [], Size = 0\<rparr>"

definition zero_Manifest :: Manifest where
  "zero_Manifest =
     \<lparr>SchemaVersion = 0, MediaType = [], Config = zero_Layer, Layers = [],
      IsAppleFoundationModel = False, filepath = [], fi = None, digest = []\<rparr>"

fun dec_Layers :: "json list \<Rightarrow> json_error + Layer list" where
  "dec_Layers [] = Inr []"
| "dec_Layers (v # vs) =
     (case v of
        JObject kvs \<Rightarrow>
          (case dec_Layer_fields kvs zero_Layer of
             Inl err \<Rightarrow> Inl err
           | Inr l \<Rightarrow> (case dec_Layers vs of Inl err \<Rightarrow> Inl err | Inr ls \<Rightarrow> Inr (l # ls)))
      | JNull \<Rightarrow> (case dec_Layers vs of Inl err \<Rightarrow> Inl err | Inr ls \<Rightarrow> Inr (zero_Layer # ls))
      | _ \<Rightarrow> Inl (UnmarshalTypeError ''Manifest.layers''))"

fun dec_Manifest_fields :: "(string \<times> json) list \<Rightarrow> Manifest \<Rightarrow> json_error + Manifest" where
  "dec_Manifest_fields [] m = Inr m"
| "dec_Manifest_fields ((k, v) # kvs) m =
     (if v = JNull then dec_Manifest_fields kvs m
      else if key_is ''schemaVersion'' k then
        (case v of
           JNumber t \<Rightarrow>
             (case int_of_literal t of
                Some i \<Rightarrow> dec_Manifest_fields kvs (m\<lparr>SchemaVersion := i\<rparr>)
              | None \<Rightarrow> Inl (UnmarshalTypeError ''Manifest.schemaVersion''))
         | _ \<Rightarrow> Inl (UnmarshalTypeError ''Manifest.schemaVersion''))
      else if key_is ''mediaType'' k then
        (case v of
           JString s \<Rightarrow> dec_Manifest_fields kvs (m\<lparr>Manifest.MediaType := s\<rparr>)
         | _ \<Rightarrow> Inl (UnmarshalTypeError ''Manifest.mediaType''))
      else if key_is ''config'' k then
        (case v of
           JObject fs \<Rightarrow>
             (case dec_Layer_fields fs (Config m) of
                Inl err \<Rightarrow> Inl err
              | Inr l \<Rightarrow> dec_Manifest_fields kvs (m\<lparr>Config := l\<rparr>))
         | _ \<Rightarrow> Inl (UnmarshalTypeError ''Manifest.config''))
      else if key_is ''layers'' k then
        (case v of
           JArray vs \<Rightarrow>
             (case dec_Layers vs of
                Inl err \<Rightarrow> Inl err
              | Inr ls \<Rightarrow> dec_Manifest_fields kvs (m\<lparr>Layers := ls\<rparr>))
         | _ \<Rightarrow> Inl (UnmarshalTypeError ''Manifest.layers''))
      else if key_is ''IsAppleFoundationModel'' k then
        (case v of
           JBool b \<Rightarrow> dec_Manifest_fields kvs (m\<lparr>IsAppleFoundationModel := b\<rparr>)
         | _ \<Rightarrow> Inl (UnmarshalTypeError ''Manifest.IsAppleFoundationModel''))
      else dec_Manifest_fields kvs m)"

definition dec_Manifest :: "json \<Rightarrow> json_error + Manifest" where
  "dec_Manifest v =
     (case v of
        JObject kvs \<Rightarrow> dec_Manifest_fields kvs zero_Manifest
      | JNull \<Rightarrow> Inr zero_Manifest
      | _ \<Rightarrow> Inl (UnmarshalTypeError ''Manifest''))"

subsection \<open>How far the decoder reads\<close>

text \<open>
  The decoder fills its buffer from the reader and looks for the end of the value in what
  it holds; when the value is not whole yet it reads again. The buffer starts with room
  for 512 bytes, and a full buffer of \<open>b\<close> bytes is replaced by one of \<open>2 * b + 512\<close>;
  a file gives as many bytes as are asked for, or all that are left. \<open>read_count need len\<close>
  is the number of bytes read from a file of \<open>len\<close> bytes by the time the first
  \<open>need\<close> bytes are in the buffer.
\<close>

function read_upto :: "nat \<Rightarrow> nat \<Rightarrow> nat" where
  "read_upto b need = (if need \<le> b then b else read_upto (2 * b + 512) need)"
  by pat_completeness auto
termination
  by (relation "measure (\<lambda>(b, need). need - b)") auto

definition read_count :: "nat \<Rightarrow> nat \<Rightarrow> nat" where
  "read_count need len = min len (read_upto 512 need)"

text \<open>
  An object or an array ends with its closing bracket; any other value ends with the byte
  after it, or with the end of the file.
\<close>

definition go_json_Decode :: "string \<Rightarrow> (json_error + Manifest) \<times> nat" where
  "go_json_Decode bs =
     (case parse_value (Suc (length bs)) bs of
        Truncated \<Rightarrow> (Inl (if skip_ws bs = [] then EOF else UnexpectedEOF), length bs)
      | Invalid \<Rightarrow> (Inl (SyntaxError ''invalid character''), length bs)
      | Parsed v rest \<Rightarrow>
          (dec_Manifest v,
           read_count
             (case v of
                JObject kvs \<Rightarrow> length bs - length rest
              | JArray vs \<Rightarrow> length bs - length rest
              | _ \<Rightarrow> Suc (length bs - length rest))
             (length bs)))"

subsection \<open>SHA-256\<close>

text \<open>
  The hash function of FIPS 180-4 on bytes, with 32-bit words. The round constants are
  the first 32 bits of the fractional parts of the cube roots of the first 64 primes, the
  initial state those of the square roots of the first 8 primes; they are written in
  decimal.
\<close>

type_synonym word32 = "32 word"

definition sha_K :: "word32 list" where
  "sha_K =
     [1116352408, 1899447441, 3049323471, 3921009573, 961987163, 1508970993, 2453635748, 2870763221,
      3624381080, 310598401, 607225278, 1426881987, 1925078388, 2162078206, 2614888103, 3248222580,
      3835390401, 4022224774, 264347078, 604807628, 770255983, 1249150122, 1555081692, 1996064986,
      2554220882, 2821834349, 2952996808, 3210313671, 3336571891, 3584528711, 113926993, 338241895,
      666307205, 773529912, 1294757372, 1396182291, 1695183700, 1986661051, 2177026350, 2456956037,
      2730485921, 2820302411, 3259730800, 3345764771, 3516065817, 3600352804, 4094571909, 275423344,
      430227734, 506948616, 659060556, 883997877, 958139571, 1322822218, 1537002063, 1747873779,
      1955562222, 2024104815, 2227730452, 2361852424, 2428436474, 2756734187, 3204031479, 3329325298]"

definition sha_H0 :: "word32 list" where
  "sha_H0 =
     [1779033703, 3144134277, 1013904242, 2773480762, 1359893119, 2600822924, 528734635, 1541459225]"

definition sha_pad :: "string \<Rightarrow> string" where
  "sha_pad bs =
     bs @ [CHR 0x80] @ replicate ((119 - length bs mod 64) mod 64) (CHR 0x00) @
     map (\<lambda>i. char_of (8 * length bs div 256 ^ i)) (rev [0..<8])"

fun sha_words :: "string \<Rightarrow> word32 list" where
  "sha_words (a # b # c # d # cs) =
     (((of_nat (of_char a) * 256 + of_nat (of_char b)) * 256 + of_nat (of_char c)) * 256
        + of_nat (of_char d)) # sha_words cs"
| "sha_words cs = []"

definition small_sigma0 :: "word32 \<Rightarrow> word32" where
  "small_sigma0 x = xor (xor (word_rotr 7 x) (word_rotr 18 x)) (drop_bit 3 x)"

definition small_sigma1 :: "word32 \<Rightarrow> word32" where
  "small_sigma1 x = xor (xor (word_rotr 17 x) (word_rotr 19 x)) (drop_bit 10 x)"

definition big_sigma0 :: "word32 \<Rightarrow> word32" where
  "big_sigma0 x = xor (xor (word_rotr 2 x) (word_rotr 13 x)) (word_rotr 22 x)"

definition big_sigma1 :: "word32 \<Rightarrow> word32" where
  "big_sigma1 x = xor (xor (word_rotr 6 x) (word_rotr 11 x)) (word_rotr 25 x)"

text \<open>The message schedule; the words so far are kept last first.\<close>

fun sha_schedule :: "nat \<Rightarrow> word32 list \<Rightarrow> word32 list" where
  "sha_schedule 0 ws = rev ws"
| "sha_schedule (Suc n) ws =
     sha_schedule n
       ((small_sigma1 (ws ! 1) + ws ! 6 + small_sigma0 (ws ! 14) + ws ! 15) # ws)"

definition sha_round :: "word32 list \<Rightarrow> word32 \<times> word32 \<Rightarrow> word32 list" where
  "sha_round s kw =
     (case s of
        [a, b, c, d, e, f, g, h] \<Rightarrow>
          let t1 = h + big_sigma1 e + xor (and e f) (and (not e) g) + fst kw + snd kw;
              t2 = big_sigma0 a + xor (xor (and a b) (and a c)) (and b c)
          in [t1 + t2, a, b, c, d + t1, e, f, g]
      | _ \<Rightarrow> s)"

definition sha_block :: "word32 list \<Rightarrow> word32 list \<Rightarrow> word32 list" where
  "sha_block h ws = map2 (+) h (foldl sha_round h (zip sha_K (sha_schedule 48 (rev ws))))"

fun sha_blocks :: "word32 list \<Rightarrow> word32 list \<Rightarrow> word32 list" where
  "sha_blocks h [] = h"
| "sha_blocks h (w # ws) = sha_blocks (sha_block h (take 16 (w # ws))) (drop 15 ws)"

definition sha256_Sum256 :: "string \<Rightarrow> string" where
  "sha256_Sum256 bs =
     concat (map (\<lambda>w. map (\<lambda>i. char_of (unat (drop_bit i w))) [24, 16, 8, 0])
       (sha_blocks sha_H0 (sha_words (sha_pad bs))))"

subsection \<open>Names, store root, pruning\<close>

text \<open>
  Modelled from the spec: the package \<^verbatim>\<open>types/model\<close> is not in the source file. The
  spec's Name Resolver has a name of parts that are all present when the name is fully
  qualified, a relative path built from the parts in a fixed order, and the inverse
  reading of such a path. \<^verbatim>\<open>Manifests\<close> looks four levels below the store root, so
  the name here has four parts, one per level. A part is valid when it is not empty and
  made of letters, digits, \<^verbatim>\<open>_\<close>, \<^verbatim>\<open>-\<close> and \<^verbatim>\<open>.\<close>.
\<close>

record Name =
  Host :: string
  Namespace :: string
  Model :: string
  Tag :: string

definition isValidPart :: "string \<Rightarrow> bool" where
  "isValidPart s =
     (s \<noteq> [] \<and>
      list_all (\<lambda>c. in_range 48 57 c \<or> in_range 65 90 c \<or> in_range 97 122 c
                    \<or> c = CHR ''_'' \<or> c = CHR ''-'' \<or> c = CHR ''.'') s)"

definition Name_IsFullyQualified :: "Name \<Rightarrow> bool" where
  "Name_IsFullyQualified n =
     (isValidPart (Host n) \<and> isValidPart (Namespace n) \<and> isValidPart (Model n) \<and> isValidPart (Tag n))"

definition Name_IsValid :: "Name \<Rightarrow> bool" where
  "Name_IsValid n = Name_IsFullyQualified n"

definition Name_Filepath :: "Name \<Rightarrow> string" where
  "Name_Filepath n = filepath_Join [Host n, Namespace n, Model n, Tag n]"

definition Name_to_String :: "Name \<Rightarrow> string" where
  "Name_to_String n = Host n @ ''/'' @ Namespace n @ ''/'' @ Model n @ '':'' @ Tag n"

definition zero_Name :: Name where
  "zero_Name = \<lparr>Host = [], Namespace = [], Model = [], Tag = []\<rparr>"

definition Name_ParseNameFromFilepath :: "string \<Rightarrow> Name" where
  "Name_ParseNameFromFilepath s =
     (case split_path s of
        [h, ns, m, t] \<Rightarrow>
          if Name_IsFullyQualified \<lparr>Host = h, Namespace = ns, Model = m, Tag = t\<rparr>
          then \<lparr>Host = h, Namespace = ns, Model = m, Tag = t\<rparr>
          else zero_Name
      | _ \<Rightarrow> zero_Name)"

text \<open>A missing host, namespace or tag is filled in with a default.\<close>

definition Name_ParseName :: "string \<Rightarrow> Name" where
  "Name_ParseName s =
     (let pre = butlast (split_path s);
          final = last (split_path s);
          tg = drop 1 (dropWhile (\<lambda>c. c \<noteq> CHR '':'') final)
      in \<lparr>Host = (if 2 \<le> length pre then pre ! (length pre - 2) else ''registry.ollama.ai''),
          Namespace = (if pre \<noteq> [] then last pre else ''library''),
          Model = takeWhile (\<lambda>c. c \<noteq> CHR '':'') final,
          Tag = (if tg = [] then ''latest'' else tg)\<rparr>)"

text \<open>
  Modelled from the spec: \<^verbatim>\<open>PruneDirectory\<close> is not in the source file. The spec's
  Directory Pruner removes the directories below the store root that have become empty.
\<close>

definition prune_pass :: "string \<Rightarrow> world \<Rightarrow> world" where
  "prune_pass root w =
     w\<lparr>entries :=
         filter (\<lambda>e. \<not> (snd e = Dir \<and> take (length root + 1) (fst e) = root @ ''/''
                        \<and> \<not> has_children w (fst e)))
           (entries w)\<rparr>"

definition go_PruneDirectory :: "string \<Rightarrow> world \<Rightarrow> Name error option \<times> world" where
  "go_PruneDirectory root w =
     (None, called ''prune'' root ((prune_pass root ^^ length (entries w)) w))"

text \<open>
  The JSON text of the \<^verbatim>\<open>ConfigV2\<close> value of \<^verbatim>\<open>createAppleManifests\<close>. The type
  \<^verbatim>\<open>ConfigV2\<close> is not in the source file either; its field names in JSON are taken
  to be as written here. Only the length of this text enters the model.
\<close>

definition apple_configData :: string where
  \<open>apple_configData =
     ''{"model_format":"apple","model_family":"apple","model_families":["apple"],'' @
     ''"model_type":"apple","file_type":"apple","architecture":"amd64","os":"linux",'' @
     ''"rootfs":{"type":"layers","diff_ids":null}}''\<close>

definition goE :: "Name env" where
  "goE =
     \<lparr>IsFullyQualified = Name_IsFullyQualified,
      IsValid = Name_IsValid,
      Filepath = Name_Filepath,
      Name_String = Name_to_String,
      ParseName = Name_ParseName,
      ParseNameFromFilepath = Name_ParseNameFromFilepath,
      GetManifestPath = Inr ''/models/manifests'',
      PruneDirectory = go_PruneDirectory,
      Marshal_config = Inr apple_configData,
      json_Encode = go_json_Encode,
      json_Decode = go_json_Decode,
      sha256 = sha256_Sum256\<rparr>"

subsection \<open>Example stores\<close>

text \<open>An empty store: the store root exists and holds nothing.\<close>

definition store0 :: world where
  "store0 =
     \<lparr>entries = [(''/models'', Dir), (''/models/manifests'', Dir)],
      environ = [], calls = [], logs = []\<rparr>"

subsection \<open>Values named in the statements\<close>

text \<open>
  The manifest that \<^verbatim>\<open>createAppleManifests\<close> builds, for the JSON text
  \<open>configData\<close> of its config.
\<close>

definition synthetic_manifest :: "'n env \<Rightarrow> string \<Rightarrow> Manifest" where
  "synthetic_manifest E configData =
     \<lparr>SchemaVersion = 2,
      MediaType = ''application/vnd.docker.distribution.manifest.v2+json'',
      Config = \<lparr>Layer.MediaType = ''application/vnd.ollama.image.config'',
                Digest = GenerateFakeDigest E ''apple'',
                Size = of_nat (length configData)\<rparr>,
      Layers = [\<lparr>Layer.MediaType = ''application/vnd.ollama.image.applefoundationmodel'',
                 Digest = GenerateFakeDigest E ''apple'',
                 Size = 1024 * 1024\<rparr>,
                \<lparr>Layer.MediaType = ''application/vnd.ollama.image.template'',
                 Digest = GenerateFakeDigest E ''apple'',
                 Size = of_nat (length templateData)\<rparr>],
      IsAppleFoundationModel = True,
      filepath = [], fi = None, digest = []\<rparr>"

text \<open>The manifest that \<^verbatim>\<open>WriteManifest\<close> encodes for a config and layers.\<close>

definition written_manifest :: "Layer \<Rightarrow> Layer list \<Rightarrow> Manifest" where
  "written_manifest config layers =
     \<lparr>SchemaVersion = 2,
      MediaType = ''application/vnd.docker.distribution.manifest.v2+json'',
      Config = config, Layers = layers,
      IsAppleFoundationModel = False,
      filepath = [], fi = None, digest = []\<rparr>"

text \<open>The name, config and layer of the spec's concrete scenario, and a name without a tag.\<close>

definition n0 :: Name where
  "n0 = \<lparr>Host = ''registry.ollama.ai'', Namespace = ''library'', Model = ''demo'', Tag = ''latest''\<rparr>"


definition c0 :: Layer where
  "c0 = \<lparr>Layer.MediaType = ''cfg'', Digest = ''sha256:aa'', Size = 10\<rparr>"

definition l0 :: Layer where
  "l0 = \<lparr>Layer.MediaType = ''weights'', Digest = ''sha256:bb'', Size = 2048\<rparr>"

definition path0 :: string where
  "path0 = ''/models/manifests/registry.ollama.ai/library/demo/latest''"

definition text0 :: string where
  "text0 = enc_Manifest (written_manifest c0 [l0]) @ [CHR 0x0A]"


text \<open>
  A store whose file at the path of \<open>n0\<close> is a manifest text with the member
  \<^verbatim>\<open>"IsAppleFoundationModel":true\<close>, and the manifest read from it.
\<close>

definition text_flagged :: string where
  "text_flagged =
     enc_Manifest ((written_manifest c0 [l0])\<lparr>IsAppleFoundationModel := True\<rparr>) @ [CHR 0x0A]"

definition store_flagged :: world where
  "store_flagged =
     \<lparr>entries =
        [(''/models'', Dir), (''/models/manifests'', Dir),
         (''/models/manifests/registry.ollama.ai'', Dir),
         (''/models/manifests/registry.ollama.ai/library'', Dir),
         (''/models/manifests/registry.ollama.ai/library/demo'', Dir),
         (path0, File text_flagged)],
      environ = [], calls = [], logs = []\<rparr>"

definition m_flagged :: Manifest where
  "m_flagged =
     (written_manifest c0 [l0])
       \<lparr>IsAppleFoundationModel := True,
        filepath := path0,
        fi := Some (file_info path0 (File text_flagged)),
        digest := hex_EncodeToString (sha256_Sum256 (take 245 text_flagged))\<rparr>"


text \<open>
  A store with two files under the model \<open>demo\<close>: the manifest of \<open>n0\<close> and, under
  the tag \<open>broken\<close>, an unfinished JSON text. The same store with a symbolic link
  \<open>zlink\<close> whose target is missing.
\<close>

definition path_broken :: string where
  "path_broken = ''/models/manifests/registry.ollama.ai/library/demo/broken''"

definition path_zlink :: string where
  "path_zlink = ''/models/manifests/registry.ollama.ai/library/demo/zlink''"

definition store_listing :: world where
  "store_listing =
     \<lparr>entries =
        [(''/models'', Dir), (''/models/manifests'', Dir),
         (''/models/manifests/registry.ollama.ai'', Dir),
         (''/models/manifests/registry.ollama.ai/library'', Dir),
         (''/models/manifests/registry.ollama.ai/library/demo'', Dir),
         (path_broken, File ''{''),
         (path0, File text0)],
      environ = [], calls = [], logs = []\<rparr>"

definition store_dangling :: world where
  "store_dangling = store_listing\<lparr>entries := entries store_listing @ [(path_zlink, Dangling)]\<rparr>"

text \<open>The manifest that \<^verbatim>\<open>ParseNamedManifest\<close> reads at \<open>path0\<close> in these stores.\<close>

definition m_read :: Manifest where
  "m_read =
     (written_manifest c0 [l0])
       \<lparr>filepath := path0,
        fi := Some \<lparr>fi_Name = ''latest'', fi_Size = 246, fi_IsDir = False\<rparr>,
        digest := hex_EncodeToString (sha256_Sum256 text0)\<rparr>"

definition name_broken :: Name where
  "name_broken =
     \<lparr>Host = ''registry.ollama.ai'', Namespace = ''library'', Model = ''demo'', Tag = ''broken''\<rparr>"

section \<open>Properties\<close>

subsection \<open>Size\<close>

lemma foldl_add_Size:
  "foldl (\<lambda>size layer. size + Size layer) a ls = a + sum_list (map Size ls)"
  by (induction ls arbitrary: a) (simp_all add: add.assoc)

text \<open>
  C5 (size invariant). For every manifest \<open>m\<close>, \<^verbatim>\<open>m.Size()\<close> is the size of the
  config plus the sum of the sizes of all layers, in Go's \<^verbatim>\<open>int64\<close> arithmetic.
\<close>

theorem Manifest_Size_eq:
  "Manifest_Size m = Size (Config m) + sum_list (map Size (Layers m))"
  by (simp add: Manifest_Size_def foldl_add_Size)

subsection \<open>The instance\<close>

lemma goE_simps:
  "IsFullyQualified goE = Name_IsFullyQualified"
  "IsValid goE = Name_IsValid"
  "Filepath goE = Name_Filepath"
  "Name_String goE = Name_to_String"
  "ParseName goE = Name_ParseName"
  "ParseNameFromFilepath goE = Name_ParseNameFromFilepath"
  "GetManifestPath goE = Inr ''/models/manifests''"
  "PruneDirectory goE = go_PruneDirectory"
  "Marshal_config goE = Inr apple_configData"
  "json_Encode goE = go_json_Encode"
  "json_Decode goE = go_json_Decode"
  "sha256 goE = sha256_Sum256"
  by (simp_all add: goE_def)

lemma apple_valid: "Name_IsValid (Name_ParseName ''apple'')"
  by code_simp

subsection \<open>Hexadecimal text\<close>

lemma hex_digit_in: "hex_digit n \<in> set ''0123456789abcdef''"
proof -
  have "n mod 16 < length ''0123456789abcdef''" by simp
  then show ?thesis unfolding hex_digit_def by (rule nth_mem)
qed

lemma hex_EncodeToString_chars: "set (hex_EncodeToString bs) \<subseteq> set ''0123456789abcdef''"
  unfolding hex_EncodeToString_def using hex_digit_in by auto

lemma hex_EncodeToString_no_colon: "CHR '':'' \<notin> set (hex_EncodeToString bs)"
  using hex_EncodeToString_chars [of bs] by auto

lemma length_hex_EncodeToString: "length (hex_EncodeToString bs) = 2 * length bs"
  unfolding hex_EncodeToString_def by (induction bs) simp_all

subsection \<open>Synthetic manifests\<close>

text \<open>
  C10. Every manifest that \<^verbatim>\<open>createAppleManifests\<close> returns has an empty \<open>digest\<close> and
  an empty \<open>filepath\<close>; its config layer and its two data layers all have the same
  digest, the hexadecimal text of the SHA-256 of \<^verbatim>\<open>apple:apple\<close>, which has no colon
  in it and so no \<^verbatim>\<open><algorithm>:\<close> in front.
\<close>

theorem createAppleManifests_digests:
  assumes "createAppleManifests E w = (Inr ms, w')" and "ms n = Some m"
  shows "digest m = [] \<and> filepath m = []
       \<and> Digest (Config m) = hex_EncodeToString (sha256 E ''apple:apple'')
       \<and> map Digest (Layers m) =
           [hex_EncodeToString (sha256 E ''apple:apple''), hex_EncodeToString (sha256 E ''apple:apple'')]
       \<and> CHR '':'' \<notin> set (Digest (Config m))"
  using assms hex_EncodeToString_no_colon [of "sha256 E ''apple:apple''"]
  by (auto simp: createAppleManifests_def Let_def CanSet_unexported_def GenerateFakeDigest_def
      split: if_splits sum.splits)

lemma createAppleManifests_ok:
  assumes "IsValid E (ParseName E ''apple'')" and "Marshal_config E = Inr cd"
  shows "createAppleManifests E w =
           (Inr [ParseName E ''apple'' \<mapsto> synthetic_manifest E cd],
            slog Info ''registered Apple Foundation Model'' [] w)"
  using assms
  by (simp add: createAppleManifests_def Let_def CanSet_unexported_def synthetic_manifest_def)

lemma createAppleManifests_fields:
  assumes "fst (createAppleManifests E w) = Inr ms" and "ms n = Some m"
  shows "filepath m = [] \<and> IsAppleFoundationModel m"
  using assms
  by (auto simp: createAppleManifests_def Let_def CanSet_unexported_def
      split: if_splits sum.splits)

lemma goE_apple_valid: "IsValid goE (ParseName goE ''apple'')"
  using apple_valid by (simp only: goE_simps)

lemma goE_createAppleManifests:
  "createAppleManifests goE w =
     (Inr [ParseName goE ''apple'' \<mapsto> synthetic_manifest goE apple_configData],
      slog Info ''registered Apple Foundation Model'' [] w)"
  by (rule createAppleManifests_ok [OF goE_apple_valid goE_simps(9)])

theorem createAppleManifests_digests_witness:
  "createAppleManifests goE store0 =
     (Inr [ParseName goE ''apple'' \<mapsto> synthetic_manifest goE apple_configData],
      slog Info ''registered Apple Foundation Model'' [] store0)
   \<and> [ParseName goE ''apple'' \<mapsto> synthetic_manifest goE apple_configData] (ParseName goE ''apple'')
       = Some (synthetic_manifest goE apple_configData)
   \<and> (digest (synthetic_manifest goE apple_configData) = []
      \<and> filepath (synthetic_manifest goE apple_configData) = []
      \<and> Digest (Config (synthetic_manifest goE apple_configData))
          = hex_EncodeToString (sha256 goE ''apple:apple'')
      \<and> map Digest (Layers (synthetic_manifest goE apple_configData))
          = [hex_EncodeToString (sha256 goE ''apple:apple''),
             hex_EncodeToString (sha256 goE ''apple:apple'')]
      \<and> CHR '':'' \<notin> set (Digest (Config (synthetic_manifest goE apple_configData))))"
  by (intro conjI goE_createAppleManifests fun_upd_same
      createAppleManifests_digests [OF goE_createAppleManifests fun_upd_same, THEN conjunct1]
      createAppleManifests_digests [OF goE_createAppleManifests fun_upd_same, THEN conjunct2, THEN conjunct1]
      createAppleManifests_digests [OF goE_createAppleManifests fun_upd_same, THEN conjunct2, THEN conjunct2, THEN conjunct1]
      createAppleManifests_digests [OF goE_createAppleManifests fun_upd_same, THEN conjunct2, THEN conjunct2, THEN conjunct2, THEN conjunct1]
      createAppleManifests_digests [OF goE_createAppleManifests fun_upd_same, THEN conjunct2, THEN conjunct2, THEN conjunct2, THEN conjunct2])

subsection \<open>The world and the calls on it\<close>

lemma called_simps [simp]:
  "entries (called opn p w) = entries w"
  "environ (called opn p w) = environ w"
  "logs (called opn p w) = logs w"
  "calls (called opn p w) = calls w @ [(opn, p)]"
  by (simp_all add: called_def)

lemma slog_simps [simp]:
  "entries (slog l msg attrs w) = entries w"
  "environ (slog l msg attrs w) = environ w"
  "calls (slog l msg attrs w) = calls w"
  "logs (slog l msg attrs w) = logs w @ [(l, msg, attrs)]"
  by (simp_all add: slog_def)

lemma walk_cong: "entries w = entries w' \<Longrightarrow> walk w st ss = walk w' st ss"
proof (induction w st ss rule: walk.induct)
  case (1 w ss)
  show ?case by simp
next
  case (2 w cur up)
  show ?case by simp
next
  case (3 w cur up s ss)
  then show ?case
    by (simp split: option.splits node.splits)
qed

lemma locate_cong: "entries w = entries w' \<Longrightarrow> locate w p = locate w' p"
  by (simp add: locate_def walk_cong [of w w'])

lemma resolve_cong: "entries w = entries w' \<Longrightarrow> resolve w p = resolve w' p"
  by (simp add: resolve_def locate_cong [of w w'])

lemma node_at_cong: "entries w = entries w' \<Longrightarrow> node_at w p = node_at w' p"
  by (simp add: node_at_def resolve_cong [of w w'])

lemma node_of_key_cong: "entries w = entries w' \<Longrightarrow> node_of_key w k = node_of_key w' k"
  by (simp add: node_of_key_def)

lemma resolve_called [simp]: "resolve (called opn p w) q = resolve w q"
  by (rule resolve_cong) simp

lemma resolve_slog [simp]: "resolve (slog l msg attrs w) q = resolve w q"
  by (rule resolve_cong) simp

lemma locate_called [simp]: "locate (called opn p w) q = locate w q"
  by (rule locate_cong) simp

lemma node_at_called [simp]: "node_at (called opn p w) q = node_at w q"
  by (rule node_at_cong) simp

lemma node_at_slog [simp]: "node_at (slog l msg attrs w) q = node_at w q"
  by (rule node_at_cong) simp

lemma node_of_key_called [simp]: "node_of_key (called opn p w) k = node_of_key w k"
  by (rule node_of_key_cong) simp

lemma os_Getenv_cong: "environ w = environ w' \<Longrightarrow> os_Getenv k w = os_Getenv k w'"
  by (simp add: os_Getenv_def)

lemma file_Close_simps [simp]:
  "entries (file_Close f w) = entries w"
  "environ (file_Close f w) = environ w"
  "logs (file_Close f w) = logs w"
  "node_at (file_Close f w) q = node_at w q"
  by (simp_all add: file_Close_def)

lemma child_not_root: "s \<noteq> [] \<Longrightarrow> child cur s \<noteq> ''/''"
  by (cases cur) (auto simp: child_def)

text \<open>The key that a path resolves to holds the node that resolution reports.\<close>

lemma walk_key:
  "walk w st ss = Inr (k, r) \<Longrightarrow> list_all (\<lambda>q. node_of_key w q = Some Dir) st \<Longrightarrow> node_of_key w k = r"
proof (induction w st ss rule: walk.induct)
  case (1 w ss)
  then show ?case by simp
next
  case (2 w cur up)
  then show ?case by simp
next
  case (3 w cur up s ss)
  show ?case
  proof (cases "s = [] \<or> s = ''.''")
    case True
    with 3 show ?thesis by simp
  next
    case False
    note nontrivial = this
    show ?thesis
    proof (cases "s = ''..''")
      case True
      with 3 nontrivial show ?thesis by (cases up) simp_all
    next
      case False
      with nontrivial have key: "node_of_key w (child cur s) = map_of (entries w) (child cur s)"
        by (simp add: node_of_key_def child_not_root)
      from 3 nontrivial False key show ?thesis
        by (auto split: option.splits node.splits if_splits)
    qed
  qed
qed

lemma locate_key: "locate w p = Inr (k, r) \<Longrightarrow> node_of_key w k = r"
  by (auto simp: locate_def node_of_key_def split: if_splits dest!: walk_key)

lemma resolve_key: "resolve w p = Inr (k, nd) \<Longrightarrow> node_of_key w k = Some nd"
  by (auto simp: resolve_def split: sum.splits prod.splits option.splits dest: locate_key)

lemma os_Stat_fst:
  "fst (os_Stat p w) =
     (case resolve w p of
        Inl e \<Rightarrow> Inl (PathError ''stat'' p e)
      | Inr (k, Dangling) \<Rightarrow> Inl (PathError ''stat'' p ENOENT)
      | Inr (k, nd) \<Rightarrow> Inr (file_info p nd))"
  by (simp add: os_Stat_def split: sum.splits prod.splits node.splits)

lemma os_Stat_snd: "snd (os_Stat p w) = called ''stat'' p w"
  by (simp add: os_Stat_def split: sum.splits prod.splits node.splits)

text \<open>What \<^verbatim>\<open>ParseNamedManifest\<close> returns, as a function of the files alone.\<close>

lemma ParseNamedManifest_fst:
  "fst (ParseNamedManifest E n w) =
     (if \<not> IsFullyQualified E n then Inl (Unqualified n)
      else
        (case GetManifestPath E of
           Inl err \<Rightarrow> Inl err
         | Inr manifests \<Rightarrow>
             (case resolve w (filepath_Join [manifests, Filepath E n]) of
                Inl e \<Rightarrow> Inl (PathError ''open'' (filepath_Join [manifests, Filepath E n]) e)
              | Inr (k, Dangling) \<Rightarrow> Inl (PathError ''open'' (filepath_Join [manifests, Filepath E n]) ENOENT)
              | Inr (k, Dir) \<Rightarrow> Inl (PathError ''read'' (filepath_Join [manifests, Filepath E n]) EISDIR)
              | Inr (k, File bs) \<Rightarrow>
                  (case json_Decode E bs of
                     (Inl err, c) \<Rightarrow> Inl (JSONError err)
                   | (Inr m, c) \<Rightarrow>
                       Inr (m\<lparr>filepath := filepath_Join [manifests, Filepath E n],
                              fi := Some (file_info (filepath_Join [manifests, Filepath E n]) (File bs)),
                              digest := hex_EncodeToString (sha256 E (take c bs))\<rparr>)))))"
proof (cases "IsFullyQualified E n")
  case False
  then show ?thesis by (simp add: ParseNamedManifest_def)
next
  case fq: True
  show ?thesis
  proof (cases "GetManifestPath E")
    case (Inl err)
    with fq show ?thesis by (simp add: ParseNamedManifest_def)
  next
    case root: (Inr manifests)
    define p where "p = filepath_Join [manifests, Filepath E n]"
    show ?thesis
    proof (cases "resolve w p")
      case (Inl e)
      with fq root show ?thesis
        by (simp add: ParseNamedManifest_def Let_def os_Open_def p_def [symmetric])
    next
      case (Inr kn)
      obtain k nd where kn: "kn = (k, nd)" by (cases kn)
      from Inr kn have key: "node_of_key w k = Some nd" by (simp add: resolve_key)
      from fq root Inr kn key show ?thesis
        by (cases nd; cases "json_Decode E (case nd of File bs \<Rightarrow> bs | _ \<Rightarrow> [])")
          (simp_all add: ParseNamedManifest_def Let_def os_Open_def file_Stat_def file_Read_def
            p_def [symmetric] split: sum.splits)
    qed
  qed
qed

lemma ParseNamedManifest_store:
  "entries (snd (ParseNamedManifest E n w)) = entries w
   \<and> environ (snd (ParseNamedManifest E n w)) = environ w
   \<and> logs (snd (ParseNamedManifest E n w)) = logs w"
  by (simp add: ParseNamedManifest_def Let_def os_Open_def file_Stat_def file_Read_def
      split: sum.splits option.splits node.splits prod.splits)

lemma ParseNamedManifest_cong:
  "entries w = entries w' \<Longrightarrow> fst (ParseNamedManifest E n w) = fst (ParseNamedManifest E n w')"
  by (simp only: ParseNamedManifest_fst resolve_cong [of w w'])

subsection \<open>Errors of \<^verbatim>\<open>ParseNamedManifest\<close>\<close>


lemma n0_qualified: "IsFullyQualified goE n0"
  unfolding goE_simps by code_simp


lemma join_n0: "filepath_Join [''/models/manifests'', Filepath goE n0] = path0"
  unfolding goE_simps by code_simp




lemma decode_corrupt: "fst (json_Decode goE ''{'') = Inl UnexpectedEOF"
  unfolding goE_simps by code_simp



subsection \<open>\<^verbatim>\<open>Remove\<close>\<close>

lemma os_Remove_empty:
  "os_Remove [] w = (Some (PathError ''remove'' [] ENOENT), called ''remove'' [] w)"
  by (simp add: os_Remove_def locate_def)

lemma Remove_empty_filepath:
  "filepath m = [] \<Longrightarrow> Remove E m w = (Some (PathError ''remove'' [] ENOENT), called ''remove'' [] w)"
  by (simp add: Remove_def os_Remove_empty)

lemma Remove_file:
  assumes "locate w (filepath m) = Inr (k, Some (File bs))" and "GetManifestPath E = Inr root"
  shows "Remove E m w = PruneDirectory E root (called ''remove'' (filepath m) (del_node k w))"
  using assms by (simp add: Remove_def os_Remove_def)

text \<open>\<^verbatim>\<open>Remove\<close> does not look at the marker.\<close>

lemma Remove_ignores_marker: "Remove E (m\<lparr>IsAppleFoundationModel := b\<rparr>) w = Remove E m w"
  by (simp add: Remove_def)

text \<open>
  C8, as the code has it. \<^verbatim>\<open>Remove\<close> does not look at \<^verbatim>\<open>IsAppleFoundationModel\<close>,
  and there is no Protected error. For every manifest that \<^verbatim>\<open>createAppleManifests\<close>
  returns, \<^verbatim>\<open>Remove\<close> fails with the not-exist error of \<^verbatim>\<open>os.Remove\<close> on the
  empty path, and the files are as they were.
\<close>

theorem Remove_synthetic:
  assumes "createAppleManifests E w0 = (Inr ms, w0')" and "ms n = Some m"
  shows "Remove E m w = (Some (PathError ''remove'' [] ENOENT), called ''remove'' [] w)
       \<and> is_NotExist (PathError ''remove'' [] ENOENT :: 'n error)
       \<and> entries (snd (Remove E m w)) = entries w"
proof -
  from assms have "fst (createAppleManifests E w0) = Inr ms" by simp
  from createAppleManifests_fields [OF this assms(2)] have "filepath m = []" by simp
  then show ?thesis by (simp add: Remove_empty_filepath)
qed

theorem Remove_synthetic_witness:
  "createAppleManifests goE store0 =
     (Inr [ParseName goE ''apple'' \<mapsto> synthetic_manifest goE apple_configData],
      slog Info ''registered Apple Foundation Model'' [] store0)
   \<and> [ParseName goE ''apple'' \<mapsto> synthetic_manifest goE apple_configData] (ParseName goE ''apple'')
       = Some (synthetic_manifest goE apple_configData)
   \<and> (Remove goE (synthetic_manifest goE apple_configData) store0
        = (Some (PathError ''remove'' [] ENOENT), called ''remove'' [] store0)
      \<and> is_NotExist (PathError ''remove'' [] ENOENT :: Name error)
      \<and> entries (snd (Remove goE (synthetic_manifest goE apple_configData) store0)) = entries store0)"
  by (intro conjI goE_createAppleManifests fun_upd_same
      Remove_synthetic [OF goE_createAppleManifests fun_upd_same, THEN conjunct1]
      Remove_synthetic [OF goE_createAppleManifests fun_upd_same, THEN conjunct2, THEN conjunct1]
      Remove_synthetic [OF goE_createAppleManifests fun_upd_same, THEN conjunct2, THEN conjunct2])

text \<open>
  The claim as stated fails: a manifest read from a file that sets the marker has the
  marker and a backing file, and \<^verbatim>\<open>Remove\<close> deletes the file and returns no error.
\<close>

lemma decode_text_flagged:
  "go_json_Decode text_flagged
     = (Inr ((written_manifest c0 [l0])\<lparr>IsAppleFoundationModel := True\<rparr>), 245)"
  by code_simp

lemma store_flagged_locate: "locate store_flagged path0 = Inr (path0, Some (File text_flagged))"
  by code_simp

lemma store_flagged_resolve: "resolve store_flagged path0 = Inr (path0, File text_flagged)"
  by (simp add: resolve_def store_flagged_locate)

lemma store_flagged_path0: "node_at store_flagged path0 = Some (File text_flagged)"
  by (simp add: node_at_def store_flagged_resolve)

lemma parse_flagged: "fst (ParseNamedManifest goE n0 store_flagged) = Inr m_flagged"
  by (simp add: ParseNamedManifest_fst n0_qualified goE_simps(7) join_n0 store_flagged_resolve
      goE_simps(11) goE_simps(12) decode_text_flagged m_flagged_def)

lemma m_flagged_fields: "IsAppleFoundationModel m_flagged \<and> filepath m_flagged = path0"
  by (simp add: m_flagged_def)

lemma remove_flagged_eval:
  "go_PruneDirectory ''/models/manifests'' (called ''remove'' path0 (del_node path0 store_flagged))
   = (None,
      \<lparr>entries = [(''/models'', Dir), (''/models/manifests'', Dir)],
       environ = [],
       calls = [(''remove'', path0), (''prune'', ''/models/manifests'')],
       logs = []\<rparr>)"
  by code_simp

theorem Remove_flagged_counterexample:
  "fst (ParseNamedManifest goE n0 store_flagged) = Inr m_flagged
   \<and> IsAppleFoundationModel m_flagged
   \<and> node_at store_flagged path0 = Some (File text_flagged)
   \<and> Remove goE m_flagged store_flagged
       = (None,
          \<lparr>entries = [(''/models'', Dir), (''/models/manifests'', Dir)],
           environ = [],
           calls = [(''remove'', path0), (''prune'', ''/models/manifests'')],
           logs = []\<rparr>)"
proof -
  have f: "locate store_flagged (filepath m_flagged) = Inr (path0, Some (File text_flagged))"
    by (simp only: m_flagged_fields store_flagged_locate)
  have "Remove goE m_flagged store_flagged
      = go_PruneDirectory ''/models/manifests'' (called ''remove'' path0 (del_node path0 store_flagged))"
    using Remove_file [OF f goE_simps(7)] by (simp only: m_flagged_fields goE_simps(8))
  then have "Remove goE m_flagged store_flagged
       = (None,
          \<lparr>entries = [(''/models'', Dir), (''/models/manifests'', Dir)],
           environ = [],
           calls = [(''remove'', path0), (''prune'', ''/models/manifests'')],
           logs = []\<rparr>)"
    by (simp only: remove_flagged_eval)
  then show ?thesis
    by (intro conjI parse_flagged m_flagged_fields [THEN conjunct1] store_flagged_path0)
qed

subsection \<open>\<^verbatim>\<open>WriteManifest\<close> and names that are not fully qualified\<close>

lemma os_Mkdir_calls: "calls (snd (os_Mkdir path w :: 'n error option \<times> world)) = calls w"
  by (simp add: os_Mkdir_def set_node_def split: sum.splits prod.splits option.splits node.splits)

lemma os_Mkdir_error:
  "fst (os_Mkdir path w :: 'n error option \<times> world) = Some err \<Longrightarrow> \<exists>e. err = PathError ''mkdir'' path e"
  by (auto simp: os_Mkdir_def split: sum.splits prod.splits option.splits node.splits)

lemma MkdirAll_rec_calls:
  "calls (snd (MkdirAll_rec n path w :: 'n error option \<times> world)) = calls w"
proof (induction n arbitrary: path)
  case 0
  show ?case by (simp add: os_Mkdir_calls)
next
  case (Suc n)
  obtain r w' where rec: "(MkdirAll_rec n (mkdir_parent path) w :: 'n error option \<times> world) = (r, w')"
    by (cases "MkdirAll_rec n (mkdir_parent path) w :: 'n error option \<times> world")
  from Suc.IH [of "mkdir_parent path"] rec have c: "calls w' = calls w" by simp
  from os_Mkdir_calls [where 'n = 'n, of path w'] c
  have c': "calls (snd (os_Mkdir path w' :: 'n error option \<times> world)) = calls w" by simp
  from rec c c' show ?case
    by (simp add: os_Mkdir_calls split: sum.splits prod.splits option.splits node.splits)
qed

lemma MkdirAll_rec_error:
  "fst (MkdirAll_rec n path w :: 'n error option \<times> world) = Some err \<Longrightarrow> \<exists>p e. err = PathError ''mkdir'' p e"
proof (induction n arbitrary: path)
  case 0
  then show ?case using os_Mkdir_error [where 'n = 'n, of path w err] by auto
next
  case (Suc n)
  obtain r w' where rec: "(MkdirAll_rec n (mkdir_parent path) w :: 'n error option \<times> world) = (r, w')"
    by (cases "MkdirAll_rec n (mkdir_parent path) w :: 'n error option \<times> world")
  with Suc.IH [of "mkdir_parent path"] have ih: "r = Some err \<Longrightarrow> \<exists>p e. err = PathError ''mkdir'' p e"
    by simp
  from Suc.prems rec ih os_Mkdir_error [where 'n = 'n, of path w err]
    os_Mkdir_error [where 'n = 'n, of path w' err]
  show ?case
    by (auto split: sum.splits prod.splits option.splits node.splits if_splits)
qed

lemma os_MkdirAll_calls:
  "calls (snd (os_MkdirAll path w :: 'n error option \<times> world)) = calls w @ [(''mkdirall'', path)]"
proof -
  obtain r w' where rec: "(MkdirAll_rec (Suc (length path)) path w :: 'n error option \<times> world) = (r, w')"
    by (cases "MkdirAll_rec (Suc (length path)) path w :: 'n error option \<times> world")
  from MkdirAll_rec_calls [where 'n = 'n, of "Suc (length path)" path w] rec
  have "calls w' = calls w" by simp
  with rec show ?thesis by (simp add: os_MkdirAll_def del: MkdirAll_rec.simps)
qed

lemma os_MkdirAll_error:
  assumes "fst (os_MkdirAll path w :: 'n error option \<times> world) = Some err"
  shows "\<exists>p e. err = PathError ''mkdir'' p e"
proof -
  from assms have "fst (MkdirAll_rec (Suc (length path)) path w :: 'n error option \<times> world) = Some err"
    by (simp add: os_MkdirAll_def split: prod.splits del: MkdirAll_rec.simps)
  then show ?thesis by (rule MkdirAll_rec_error)
qed

lemma os_Create_calls:
  "calls (snd (os_Create p w :: ('n error + handle) \<times> world)) = calls w @ [(''create'', p)]"
  by (simp add: os_Create_def set_node_def split: sum.splits prod.splits option.splits node.splits)

lemma os_Create_result:
  "os_Create p w = (r, w') \<Longrightarrow>
     (\<exists>e. r = Inl (PathError ''open'' p e)) \<or> (\<exists>k. r = Inr \<lparr>h_name = p, h_key = k\<rparr>)"
  by (auto simp: os_Create_def split: sum.splits prod.splits option.splits node.splits if_splits)

lemma file_Write_calls:
  "calls (snd (file_Write f bs w :: 'n error option \<times> world)) = calls w @ [(''write'', h_name f)]"
  by (simp add: file_Write_def set_node_def split: option.splits node.splits)

lemma file_Write_error:
  "fst (file_Write f bs w :: 'n error option \<times> world) = Some err \<Longrightarrow> err = PathError ''write'' (h_name f) EBADF"
  by (auto simp: file_Write_def split: option.splits node.splits)

lemma file_Close_calls: "calls (file_Close f w) = calls w @ [(''close'', h_name f)]"
  by (simp add: file_Close_def)

text \<open>
  Whatever the name, with the store root known \<^verbatim>\<open>WriteManifest\<close> begins by calling
  \<^verbatim>\<open>os.MkdirAll\<close>, and the Unqualified error is not among the errors it returns.
\<close>

lemma WriteManifest_no_guard:
  fixes E :: "'n env"
  assumes "GetManifestPath E = Inr root"
  shows "(\<exists>cs. calls (snd (WriteManifest E n c ls w))
            = calls w @ (''mkdirall'', filepath_Dir (filepath_Join [root, Filepath E n])) # cs)
       \<and> fst (WriteManifest E n c ls w) \<noteq> Some (Unqualified n')"
proof -
  define p where "p = filepath_Join [root, Filepath E n]"
  obtain r1 w1 where mk: "(os_MkdirAll (filepath_Dir p) w :: 'n error option \<times> world) = (r1, w1)"
    by (cases "os_MkdirAll (filepath_Dir p) w :: 'n error option \<times> world")
  from os_MkdirAll_calls [where 'n = 'n, of "filepath_Dir p" w] mk
  have c1: "calls w1 = calls w @ [(''mkdirall'', filepath_Dir p)]" by simp
  show ?thesis
  proof (cases r1)
    case (Some err)
    with os_MkdirAll_error [where 'n = 'n, of "filepath_Dir p" w err] mk
    obtain q e where "err = PathError ''mkdir'' q e" by auto
    with Some mk c1 assms show ?thesis
      by (simp add: WriteManifest_def p_def [symmetric])
  next
    case None
    obtain r2 w2 where cr: "(os_Create p w1 :: ('n error + handle) \<times> world) = (r2, w2)"
      by (cases "os_Create p w1 :: ('n error + handle) \<times> world")
    from os_Create_calls [where 'n = 'n, of p w1] cr
    have c2: "calls w2 = calls w @ [(''mkdirall'', filepath_Dir p), (''create'', p)]"
      by (simp add: c1)
    show ?thesis
    proof (cases r2)
      case (Inl err)
      with os_Create_result [OF cr]
      obtain e where "err = PathError ''open'' p e" by auto
      with Inl None mk cr c2 assms show ?thesis
        by (simp add: WriteManifest_def p_def [symmetric])
    next
      case (Inr f)
      show ?thesis
      proof (cases "json_Encode E (written_manifest c ls)")
        case (Inl e)
        with Inr None mk cr c2 assms show ?thesis
          by (simp add: WriteManifest_def p_def [symmetric] written_manifest_def file_Close_calls)
      next
        case enc: (Inr bs)
        obtain r3 w3 where wr: "(file_Write f bs w2 :: 'n error option \<times> world) = (r3, w3)"
          by (cases "file_Write f bs w2 :: 'n error option \<times> world")
        from file_Write_calls [where 'n = 'n, of f bs w2] wr
        have c3: "calls w3 = calls w2 @ [(''write'', h_name f)]" by simp
        from file_Write_error [where 'n = 'n, of f bs w2] wr
        have "r3 \<noteq> Some (Unqualified n')" by auto
        with enc Inr None mk cr c2 c3 wr assms show ?thesis
          by (simp add: WriteManifest_def p_def [symmetric] written_manifest_def file_Close_calls)
      qed
    qed
  qed
qed


subsection \<open>The loop of \<^verbatim>\<open>Manifests\<close>\<close>

lemma os_Stat_cong:
  "entries w = entries w' \<Longrightarrow>
     fst (os_Stat p w :: ('n error + FileInfo) \<times> world) = fst (os_Stat p w')"
  by (simp only: os_Stat_fst resolve_cong [of w w'])

lemma match_outcome_cong:
  "entries w = entries w' \<Longrightarrow> match_outcome E root w x = match_outcome E root w' x"
  by (simp only: match_outcome_def os_Stat_cong [of w w'] ParseNamedManifest_cong [of w w'])

lemma loop_result_cong:
  "entries w = entries w' \<Longrightarrow> loop_result E c root w xs ms = loop_result E c root w' xs ms"
proof (induction xs arbitrary: ms)
  case Nil
  show ?case by simp
next
  case (Cons a xs)
  have "\<And>ms. loop_result E c root w xs ms = loop_result E c root w' xs ms"
    using Cons by blast
  then show ?case
    by (simp only: loop_result.simps match_outcome_cong [OF Cons.prems] cong: outcome.case_cong)
qed

text \<open>One turn of the loop, by the outcome of its match.\<close>

lemma Manifests_loop_Cons:
  "\<exists>w'. entries w' = entries w \<and> environ w' = environ w
      \<and> set (logs w) \<subseteq> set (logs w')
      \<and> (case match_outcome E root w x of
            StatFailed err \<Rightarrow> Manifests_loop E c root (x # xs) ms w = (Inl err, w')
          | Skipped \<Rightarrow> Manifests_loop E c root (x # xs) ms w = Manifests_loop E c root xs ms w'
          | Bad err r \<Rightarrow>
              if c then r \<in> set (logs w')
                     \<and> Manifests_loop E c root (x # xs) ms w = Manifests_loop E c root xs ms w'
              else Manifests_loop E c root (x # xs) ms w = (Inl err, w')
          | Good n m \<Rightarrow>
              Manifests_loop E c root (x # xs) ms w = Manifests_loop E c root xs (ms(n \<mapsto> m)) w')"
proof -
  define w1 where "w1 = called ''stat'' x w"
  have st: "os_Stat x w = (fst (os_Stat x w :: ('a error + FileInfo) \<times> world), w1)"
    by (rule prod_eqI) (simp_all add: w1_def os_Stat_snd)
  have e1: "entries w1 = entries w" "environ w1 = environ w" "logs w1 = logs w"
    by (simp_all add: w1_def)
  show ?thesis
  proof (cases "fst (os_Stat x w :: ('a error + FileInfo) \<times> world)")
    case (Inl err)
    with st e1 show ?thesis
      by (intro exI [of _ w1]) (simp add: match_outcome_def)
  next
    case (Inr fi')
    show ?thesis
    proof (cases "fi_IsDir fi'")
      case True
      with Inr st e1 show ?thesis
        by (intro exI [of _ w1]) (simp add: match_outcome_def)
    next
      case notdir: False
      show ?thesis
      proof (cases "filepath_Rel root x :: 'a error + string")
        case (Inl err)
        with Inr notdir st e1 show ?thesis
          by (intro exI [of _ "if c then slog Warn ''bad filepath'' [x] w1 else w1"])
            (auto simp: match_outcome_def)
      next
        case rel: (Inr rel)
        define n where "n = ParseNameFromFilepath E rel"
        show ?thesis
        proof (cases "IsValid E n")
          case False
          with rel Inr notdir st e1 show ?thesis
            by (intro exI [of _ "if c then slog Warn ''bad manifest name'' [rel] w1 else w1"])
              (auto simp: match_outcome_def n_def)
        next
          case valid: True
          define w2 where "w2 = snd (ParseNamedManifest E n w1)"
          have pr: "ParseNamedManifest E n w1 = (fst (ParseNamedManifest E n w), w2)"
            using ParseNamedManifest_cong [of w1 w E n] e1 by (intro prod_eqI) (simp_all add: w2_def)
          have e2: "entries w2 = entries w" "environ w2 = environ w" "logs w2 = logs w"
            using ParseNamedManifest_store [of E n w1] e1 by (simp_all add: w2_def)
          show ?thesis
          proof (cases "fst (ParseNamedManifest E n w)")
            case (Inl err)
            with valid rel Inr notdir st pr e2 show ?thesis
              by (intro exI [of _ "if c then slog Warn ''bad manifest'' [Name_String E n] w2 else w2"])
                (auto simp: match_outcome_def n_def)
          next
            case (Inr m)
            with valid rel \<open>fst (os_Stat x w) = Inr fi'\<close> notdir st pr e2 show ?thesis
              by (intro exI [of _ w2]) (auto simp: match_outcome_def n_def)
          qed
        qed
      qed
    qed
  qed
qed

text \<open>
  The loop returns what \<open>loop_result\<close> computes from the files, leaves the files and
  the environment as they were, and keeps every record already logged.
\<close>

lemma Manifests_loop_result:
  "\<exists>w'. Manifests_loop E c root xs ms w = (loop_result E c root w xs ms, w')
      \<and> entries w' = entries w \<and> environ w' = environ w
      \<and> set (logs w) \<subseteq> set (logs w')"
proof (induction xs arbitrary: ms w)
  case Nil
  show ?case by simp
next
  case (Cons x xs)
  obtain w1 where w1: "entries w1 = entries w" "environ w1 = environ w"
      "set (logs w) \<subseteq> set (logs w1)"
    and step: "case match_outcome E root w x of
            StatFailed err \<Rightarrow> Manifests_loop E c root (x # xs) ms w = (Inl err, w1)
          | Skipped \<Rightarrow> Manifests_loop E c root (x # xs) ms w = Manifests_loop E c root xs ms w1
          | Bad err r \<Rightarrow>
              if c then r \<in> set (logs w1)
                     \<and> Manifests_loop E c root (x # xs) ms w = Manifests_loop E c root xs ms w1
              else Manifests_loop E c root (x # xs) ms w = (Inl err, w1)
          | Good n m \<Rightarrow>
              Manifests_loop E c root (x # xs) ms w = Manifests_loop E c root xs (ms(n \<mapsto> m)) w1"
    using Manifests_loop_Cons [where E = E and c = c and root = root and x = x and xs = xs and ms = ms and w = w] by blast
  have lr: "\<And>ms'. loop_result E c root w1 xs ms' = loop_result E c root w xs ms'"
    by (rule loop_result_cong [OF w1(1)])
  have rest: "\<And>ms'. \<exists>w'. Manifests_loop E c root xs ms' w1 = (loop_result E c root w xs ms', w')
      \<and> entries w' = entries w \<and> environ w' = environ w \<and> set (logs w) \<subseteq> set (logs w')"
  proof -
    fix ms'
    obtain w' where "Manifests_loop E c root xs ms' w1 = (loop_result E c root w1 xs ms', w')"
      "entries w' = entries w1" "environ w' = environ w1" "set (logs w1) \<subseteq> set (logs w')"
      using Cons.IH [of ms' w1] by blast
    with w1 lr show "\<exists>w'. Manifests_loop E c root xs ms' w1 = (loop_result E c root w xs ms', w')
      \<and> entries w' = entries w \<and> environ w' = environ w \<and> set (logs w) \<subseteq> set (logs w')"
      by (intro exI [of _ w']) auto
  qed
  show ?case
  proof (cases "match_outcome E root w x")
    case (StatFailed err)
    with step w1 show ?thesis by (intro exI [of _ w1]) simp
  next
    case Skipped
    with step rest [of ms] show ?thesis by simp
  next
    case (Bad err r)
    show ?thesis
    proof (cases c)
      case True
      with Bad step rest [of ms] show ?thesis by simp
    next
      case False
      with Bad step w1 show ?thesis by (intro exI [of _ w1]) simp
    qed
  next
    case (Good n m)
    with step rest [of "ms(n \<mapsto> m)"] show ?thesis by simp
  qed
qed


subsection \<open>\<^verbatim>\<open>Manifests\<close> as a whole\<close>

lemma filepath_Glob_snd: "snd (filepath_Glob p w) = called ''glob'' p w"
  by (simp add: filepath_Glob_def Let_def)

lemma createAppleManifests_world:
  "\<exists>w'. createAppleManifests E w = (fst (createAppleManifests E w0), w')
      \<and> set (logs w) \<subseteq> set (logs w')"
  by (auto simp: createAppleManifests_def Let_def split: sum.splits)

text \<open>
  \<^verbatim>\<open>Manifests\<close>, once the store root and the matches of the pattern are known: the
  result of the loop, then the synthetic manifests when the variable is \<^verbatim>\<open>1\<close>.
\<close>

lemma Manifests_result:
  fixes E :: "'n env"
  assumes root: "GetManifestPath E = Inr root"
    and glob: "fst (filepath_Glob (filepath_Join [root, ''*'', ''*'', ''*'', ''*'']) w)
                 = (Inr matches :: 'n error + string list)"
  shows "\<exists>w2 w3.
      Manifests_loop E c root matches Map.empty
          (called ''glob'' (filepath_Join [root, ''*'', ''*'', ''*'', ''*'']) w)
        = (loop_result E c root w matches Map.empty, w2)
      \<and> set (logs w2) \<subseteq> set (logs w3)
      \<and> Manifests E c w =
        (case loop_result E c root w matches Map.empty of
           Inl err \<Rightarrow> (Inl err, w2)
         | Inr ms \<Rightarrow>
             if os_Getenv ''OLLAMA_ENABLE_APPLE_FOUNDATION_MODEL'' w = ''1'' then
               (case fst (createAppleManifests E w) of
                  Inl err \<Rightarrow>
                    if \<not> c then (Inl (Errorf ''failed to get models:'' (Some err)), w3)
                    else (Inr ms, w3)
                | Inr syn \<Rightarrow> (Inr (ms ++ syn), w3))
             else (Inr ms, w3))"
proof -
  define pat where "pat = filepath_Join [root, ''*'', ''*'', ''*'', ''*'']"
  define w1 where "w1 = called ''glob'' pat w"
  have g: "filepath_Glob pat w = (Inr matches :: 'n error + string list, w1)"
    using glob by (intro prod_eqI) (simp_all add: pat_def w1_def filepath_Glob_snd)
  have e1: "entries w1 = entries w" "environ w1 = environ w"
    by (simp_all add: w1_def)
  obtain w2 where w2: "Manifests_loop E c root matches Map.empty w1
        = (loop_result E c root w1 matches Map.empty, w2)"
      "entries w2 = entries w1" "environ w2 = environ w1"
    using Manifests_loop_result [of E c root matches Map.empty w1] by blast
  have lr: "loop_result E c root w1 matches Map.empty = loop_result E c root w matches Map.empty"
    by (rule loop_result_cong [OF e1(1)])
  have env: "os_Getenv ''OLLAMA_ENABLE_APPLE_FOUNDATION_MODEL'' w2
             = os_Getenv ''OLLAMA_ENABLE_APPLE_FOUNDATION_MODEL'' w"
    using w2(3) e1(2) by (simp add: os_Getenv_def)
  show ?thesis
  proof (cases "loop_result E c root w matches Map.empty")
    case (Inl err)
    with root g w2 lr show ?thesis
      by (intro exI [of _ w2]) (simp add: Manifests_def pat_def [symmetric] w1_def [symmetric])
  next
    case (Inr ms)
    show ?thesis
    proof (cases "os_Getenv ''OLLAMA_ENABLE_APPLE_FOUNDATION_MODEL'' w = ''1''")
      case False
      with Inr root g w2 lr env show ?thesis
        by (intro exI [of _ w2] exI [of _ "slog Info ''check for Apple Foundation Models'' [''false''] w2"])
          (auto simp: Manifests_def pat_def [symmetric] w1_def [symmetric] Let_def)
    next
      case True
      define w3 where "w3 = slog Info ''check for Apple Foundation Models'' [''true''] w2"
      obtain w4 where w4: "createAppleManifests E w3 = (fst (createAppleManifests E w), w4)"
          "set (logs w3) \<subseteq> set (logs w4)"
        using createAppleManifests_world [of E w3 w] by blast
      have sub: "set (logs w2) \<subseteq> set (logs w3)" by (auto simp: w3_def)
      show ?thesis
      proof (cases "fst (createAppleManifests E w)")
        case (Inl err)
        with True Inr root g w2 lr env w4 sub show ?thesis
          by (intro exI [of _ w2]
                exI [of _ "if c then slog Warn ''failed to get models'' [] w4 else w4"])
            (auto simp: Manifests_def pat_def [symmetric] w1_def [symmetric] Let_def
               w3_def [symmetric])
      next
        case syn: (Inr syn)
        with True Inr root g w2 lr env w4 sub show ?thesis
          by (intro exI [of _ w2] exI [of _ w4])
            (auto simp: Manifests_def pat_def [symmetric] w1_def [symmetric] Let_def
               w3_def [symmetric])
      qed
    qed
  qed
qed

subsection \<open>The example stores of the listing\<close>

lemma decode_text0: "go_json_Decode text0 = (Inr (written_manifest c0 [l0]), 246)"
  by code_simp

lemma take_text0: "take 246 text0 = text0"
proof -
  have "length text0 = 246" by code_simp
  then show ?thesis by simp
qed


lemma glob_dangling:
  "fst (filepath_Glob (filepath_Join [''/models/manifests'', ''*'', ''*'', ''*'', ''*'']) store_dangling)
     = (Inr [path_broken, path0, path_zlink] :: Name error + string list)"
  by code_simp

lemma entries_dangling:
  "resolve store_dangling path_broken = Inr (path_broken, File ''{'')"
  "resolve store_dangling path0 = Inr (path0, File text0)"
  "resolve store_dangling path_zlink = Inr (path_zlink, Dangling)"
  by code_simp+


lemma rel_paths:
  "filepath_Rel ''/models/manifests'' path_broken
     = (Inr ''registry.ollama.ai/library/demo/broken'' :: Name error + string)"
  "filepath_Rel ''/models/manifests'' path0
     = (Inr ''registry.ollama.ai/library/demo/latest'' :: Name error + string)"
  by code_simp+

lemma names_of_paths:
  "ParseNameFromFilepath goE ''registry.ollama.ai/library/demo/broken'' = name_broken"
  "ParseNameFromFilepath goE ''registry.ollama.ai/library/demo/latest'' = n0"
  unfolding goE_simps by code_simp+

lemma names_valid:
  "IsValid goE name_broken" "IsValid goE n0" "IsFullyQualified goE name_broken"
  unfolding goE_simps by code_simp+

lemma join_broken: "filepath_Join [''/models/manifests'', Filepath goE name_broken] = path_broken"
  unfolding goE_simps by code_simp

lemma string_broken: "Name_String goE name_broken = ''registry.ollama.ai/library/demo:broken''"
  unfolding goE_simps by code_simp

lemma file_info_path0:
  "file_info path0 (File text0) = \<lparr>fi_Name = ''latest'', fi_Size = 246, fi_IsDir = False\<rparr>"
  "\<not> fi_IsDir (file_info path_broken (File ''{''))"
  by code_simp+

lemma parse_path0:
  "resolve w path0 = Inr (path0, File text0) \<Longrightarrow> fst (ParseNamedManifest goE n0 w) = Inr m_read"
  by (simp add: ParseNamedManifest_fst n0_qualified goE_simps(7) join_n0
      goE_simps(11) goE_simps(12) decode_text0 take_text0 m_read_def file_info_path0)

lemma parse_broken:
  "resolve w path_broken = Inr (path_broken, File ''{'')
     \<Longrightarrow> fst (ParseNamedManifest goE name_broken w) = Inl (JSONError UnexpectedEOF)"
  using decode_corrupt
  by (auto simp: ParseNamedManifest_fst names_valid goE_simps(7) join_broken split: prod.splits)

lemma outcome_path0:
  "resolve w path0 = Inr (path0, File text0)
     \<Longrightarrow> match_outcome goE ''/models/manifests'' w path0 = Good n0 m_read"
  by (simp add: match_outcome_def os_Stat_fst file_info_path0 rel_paths names_of_paths
      names_valid parse_path0)

lemma outcome_broken:
  "resolve w path_broken = Inr (path_broken, File ''{'')
     \<Longrightarrow> match_outcome goE ''/models/manifests'' w path_broken
         = Bad (Errorf ''registry.ollama.ai/library/demo:broken'' (Some (JSONError UnexpectedEOF)))
             (Warn, ''bad manifest'', [''registry.ollama.ai/library/demo:broken''])"
  by (simp add: match_outcome_def os_Stat_fst file_info_path0 rel_paths names_of_paths
      names_valid parse_broken string_broken)

subsection \<open>A failing \<^verbatim>\<open>os.Stat\<close> in \<^verbatim>\<open>Manifests\<close>\<close>

lemma loop_result_append:
  "loop_result E c root w (pre @ rest) ms =
     (case loop_result E c root w pre ms of
        Inl err \<Rightarrow> Inl err
      | Inr ms1 \<Rightarrow> loop_result E c root w rest ms1)"
proof -
  have t: "loop_result E True root w (pre @ rest) ms =
     (case loop_result E True root w pre ms of
        Inl err \<Rightarrow> Inl err
      | Inr ms1 \<Rightarrow> loop_result E True root w rest ms1)" for ms
    by (induction pre arbitrary: ms) (simp_all split: outcome.splits)
  have f: "loop_result E False root w (pre @ rest) ms =
     (case loop_result E False root w pre ms of
        Inl err \<Rightarrow> Inl err
      | Inr ms1 \<Rightarrow> loop_result E False root w rest ms1)" for ms
    by (induction pre arbitrary: ms) (simp_all split: outcome.splits)
  show ?thesis
    by (cases c) (simp_all only: t f)
qed

lemma match_outcome_StatFailed:
  "fst (os_Stat x w) = Inl err \<Longrightarrow> match_outcome E root w x = StatFailed err"
  by (simp add: match_outcome_def)

text \<open>
  Claim C9. In \<^verbatim>\<open>Manifests\<close>, for either value of \<open>continueOnError\<close>: when the store
  root is known, the pattern matches the paths \<open>pre @ x # post\<close>, the loop gets through
  the matches \<open>pre\<close> before \<open>x\<close> without returning, and \<^verbatim>\<open>os.Stat\<close> fails on \<open>x\<close> with
  \<open>err\<close>, the call returns \<open>err\<close> itself: the failure is not logged and passed over,
  and the matches \<open>post\<close> are not looked at.
\<close>

theorem Manifests_stat_failure:
  fixes E :: "'n env"
  assumes "GetManifestPath E = Inr root"
    and "fst (filepath_Glob (filepath_Join [root, ''*'', ''*'', ''*'', ''*'']) w)
           = (Inr (pre @ x # post) :: 'n error + string list)"
    and "fst (Manifests_loop E continueOnError root pre Map.empty w) = Inr ms"
    and "fst (os_Stat x w) = Inl err"
  shows "fst (Manifests E continueOnError w) = Inl err"
proof -
  obtain w' where "Manifests_loop E continueOnError root pre Map.empty w
      = (loop_result E continueOnError root w pre Map.empty, w')"
    using Manifests_loop_result [of E continueOnError root pre Map.empty w] by blast
  with assms(3) have pre: "loop_result E continueOnError root w pre Map.empty = Inr ms"
    by simp
  have "loop_result E continueOnError root w (pre @ x # post) Map.empty = Inl err"
    by (simp add: loop_result_append pre match_outcome_StatFailed [OF assms(4)])
  with Manifests_result [OF assms(1) assms(2), of continueOnError] show ?thesis
    by auto
qed

theorem Manifests_stat_failure_witness:
  "GetManifestPath goE = Inr ''/models/manifests''
   \<and> fst (filepath_Glob (filepath_Join [''/models/manifests'', ''*'', ''*'', ''*'', ''*''])
            store_dangling)
       = (Inr ([path_broken, path0] @ path_zlink # []) :: Name error + string list)
   \<and> fst (Manifests_loop goE True ''/models/manifests'' [path_broken, path0] Map.empty
            store_dangling)
       = Inr [n0 \<mapsto> m_read]
   \<and> fst (os_Stat path_zlink store_dangling) = (Inl (PathError ''stat'' path_zlink ENOENT) :: Name error + FileInfo)
   \<and> fst (Manifests goE True store_dangling) = Inl (PathError ''stat'' path_zlink ENOENT)"
proof -
  note a = goE_simps(7)
  have b: "fst (filepath_Glob (filepath_Join [''/models/manifests'', ''*'', ''*'', ''*'', ''*''])
            store_dangling)
       = (Inr ([path_broken, path0] @ path_zlink # []) :: Name error + string list)"
    using glob_dangling by simp
  obtain w' where "Manifests_loop goE True ''/models/manifests'' [path_broken, path0] Map.empty
      store_dangling
      = (loop_result goE True ''/models/manifests'' store_dangling [path_broken, path0] Map.empty, w')"
    using Manifests_loop_result [of goE True "''/models/manifests''" "[path_broken, path0]"
        Map.empty store_dangling] by blast
  then have c: "fst (Manifests_loop goE True ''/models/manifests'' [path_broken, path0] Map.empty
            store_dangling) = Inr [n0 \<mapsto> m_read]"
    by (simp add: outcome_broken [OF entries_dangling(1)] outcome_path0 [OF entries_dangling(2)])
  have d: "fst (os_Stat path_zlink store_dangling)
      = (Inl (PathError ''stat'' path_zlink ENOENT) :: Name error + FileInfo)"
    by (simp add: os_Stat_fst entries_dangling(3))
  note e = Manifests_stat_failure [OF a b c d]
  show ?thesis
    by (intro conjI a b c d e)
qed

subsection \<open>What the loop returns\<close>





subsection \<open>Bad matches in \<^verbatim>\<open>Manifests\<close>\<close>







end
